theory Spec2Isabelle
  imports Main "HOL-Library.Word"
begin


section \<open>Tokens\<close>

text \<open>
  The token kinds are the indices of \<^verbatim>\<open>ruleTable\<close> in \<^verbatim>\<open>cparse.c\<close>.  A token carries its
  kind, its text (\<^verbatim>\<open>start\<close> and \<^verbatim>\<open>length\<close> in C; for an error token the text is the
  lexer's message) and its source line.
\<close>

datatype CTokenType =
    TOKEN_LEFT_PAREN | TOKEN_RIGHT_PAREN | TOKEN_LEFT_BRACE | TOKEN_RIGHT_BRACE
  | TOKEN_LEFT_BRACKET | TOKEN_RIGHT_BRACKET | TOKEN_COMMA | TOKEN_COLON
  | TOKEN_DOT | TOKEN_DOT_DOT | TOKEN_DOT_DOT_DOT | TOKEN_MINUS | TOKEN_MINUS_MINUS
  | TOKEN_PLUS | TOKEN_PLUS_PLUS | TOKEN_SLASH | TOKEN_STAR | TOKEN_PERCENT
  | TOKEN_POUND | TOKEN_EOS | TOKEN_BANG | TOKEN_BANG_EQUAL | TOKEN_EQUAL
  | TOKEN_EQUAL_EQUAL | TOKEN_GREATER | TOKEN_GREATER_EQUAL | TOKEN_LESS
  | TOKEN_LESS_EQUAL | TOKEN_IDENTIFIER | TOKEN_STRING | TOKEN_NUMBER | TOKEN_NIL
  | TOKEN_TRUE | TOKEN_FALSE | TOKEN_AND | TOKEN_BREAK | TOKEN_CONTINUE | TOKEN_DO
  | TOKEN_ELSE | TOKEN_ELSEIF | TOKEN_END | TOKEN_FOR | TOKEN_FUNCTION | TOKEN_PROTO
  | TOKEN_IF | TOKEN_IN | TOKEN_LOCAL | TOKEN_NOT | TOKEN_OR | TOKEN_RETURN
  | TOKEN_THEN | TOKEN_WHILE | TOKEN_ERROR | TOKEN_VAR | TOKEN_EOF

text \<open>
  A C token is a type, a pointer into the source buffer with a length, and a line.  The
  model keeps the characters of the token (\<open>tok_text\<close>) and the rest of the buffer after
  them (\<open>tok_rest\<close>): \<^verbatim>\<open>strtod\<close> is handed the pointer alone and can read on past the length.
\<close>

record CToken =
  tok_type :: CTokenType
  tok_text :: string
  tok_rest :: string
  tok_line :: int

section \<open>Values, chunks and function objects\<close>

text \<open>
  Numbers are doubles in C.  The compiler only ever builds a number from a literal's text
  (\<^verbatim>\<open>strtod\<close>) or from the integer step of an increment, so a number constant is kept
  as the thing it was built from.
\<close>

datatype cosmo_Number = Strtod string | FromInt int

text \<open>
  Function objects live in the VM state and are referred to by address, because the
  compiler keeps writing into a function after handing out pointers to it.  Strings are
  interned, so a string value is its text.
\<close>

datatype CValue = CNil | CNumber cosmo_Number | CString string | CFunction nat | CClosure nat

datatype COPCODE =
    OP_LOADCONST | OP_NIL | OP_TRUE | OP_FALSE | OP_POP
  | OP_NEGATE | OP_NOT | OP_COUNT
  | OP_ADD | OP_SUB | OP_MULT | OP_DIV | OP_MOD
  | OP_EQUAL | OP_GREATER | OP_LESS | OP_GREATER_EQUAL | OP_LESS_EQUAL
  | OP_CONCAT
  | OP_GETLOCAL | OP_SETLOCAL | OP_INCLOCAL
  | OP_GETUPVAL | OP_SETUPVAL | OP_INCUPVAL
  | OP_GETGLOBAL | OP_SETGLOBAL | OP_INCGLOBAL
  | OP_GETOBJECT | OP_SETOBJECT | OP_INCOBJECT
  | OP_INDEX | OP_NEWINDEX | OP_INCINDEX
  | OP_NEWDICT | OP_NEWOBJECT
  | OP_CLOSURE | OP_CLOSE | OP_CALL | OP_INVOKE | OP_RETURN
  | OP_JMP | OP_JMPBACK | OP_PEJMP | OP_EJMP
  | OP_ITER | OP_NEXT

text \<open>
  A byte of a chunk.  The numbering of the opcodes is declared in a header that is not
  among the sources, so an opcode byte is kept symbolic; operand bytes are 8-bit words.
\<close>

datatype INSTRUCTION = OP COPCODE | U8 "8 word"

record CChunk =
  buf :: "INSTRUCTION list"
  lineInfo :: "int list"
  constants :: "CValue list"

record CObjFunction =
  chunk :: CChunk
  fargs :: int
  upvals :: int
  variadic :: bool
  fname :: string
  fmodule :: string

text \<open>
  The part of the VM state the compiler touches: the value stack, the GC freeze counter and
  the function objects (\<open>nobjects\<close> is the next free address).
\<close>

record CState =
  stack :: "CValue list"
  freezeGC :: int
  objects :: "nat \<Rightarrow> CObjFunction"
  nobjects :: nat

section \<open>Compiler state\<close>

record Local =
  lname :: CToken
  depth :: int
  isCaptured :: bool

record Upvalue =
  uv_index :: "8 word"
  isLocal :: bool

text \<open>\<open>breakCount\<close> is the length of \<open>breaks\<close>.\<close>

record LoopState =
  breaks :: "int list"
  scope :: int
  startBytecode :: int

datatype FunctionType = FTYPE_FUNCTION | FTYPE_METHOD | FTYPE_SCRIPT

text \<open>
  The two 256-entry arrays are functions from the index; the places where the C code
  writes at an index it has not bounded are modelled as faults below.  The pointer
  \<^verbatim>\<open>enclosing\<close> is the list \<open>enclosing\<close> of the parse state.
\<close>

record CCompilerState =
  locals :: "int \<Rightarrow> Local"
  upvalues :: "int \<Rightarrow> Upvalue"
  loop :: LoopState
  cfunction :: nat
  ftype :: FunctionType
  localCount :: int
  scopeDepth :: int
  pushedValues :: int
  expectedValues :: int

text \<open>A diagnostic written by \<^verbatim>\<open>errorAt\<close>: the line, the location text and the message.\<close>

type_synonym diagnostic = "int \<times> string \<times> string"

text \<open>
  \<open>lex\<close> is the lexer state: the tokens not yet scanned.  \<open>compiler\<close> is
  \<^verbatim>\<open>*pstate->compiler\<close> and \<open>enclosing\<close> the chain of its \<^verbatim>\<open>enclosing\<close> pointers,
  innermost first.  \<open>diagnostics\<close> collects what \<^verbatim>\<open>errorAt\<close> prints.
\<close>

record CParseState =
  lex :: "CToken list"
  compiler :: CCompilerState
  enclosing :: "CCompilerState list"
  pmodule :: string
  state :: CState
  current :: CToken
  previous :: CToken
  hadError :: bool
  panic :: bool
  diagnostics :: "diagnostic list"

type_synonym Precedence = int

definition PREC_NONE :: Precedence where "PREC_NONE = 0"
definition PREC_ASSIGNMENT :: Precedence where "PREC_ASSIGNMENT = 1"
definition PREC_CONCAT :: Precedence where "PREC_CONCAT = 2"
definition PREC_OR :: Precedence where "PREC_OR = 3"
definition PREC_AND :: Precedence where "PREC_AND = 4"
definition PREC_EQUALITY :: Precedence where "PREC_EQUALITY = 5"
definition PREC_COMPARISON :: Precedence where "PREC_COMPARISON = 6"
definition PREC_TERM :: Precedence where "PREC_TERM = 7"
definition PREC_FACTOR :: Precedence where "PREC_FACTOR = 8"
definition PREC_UNARY :: Precedence where "PREC_UNARY = 9"
definition PREC_CALL :: Precedence where "PREC_CALL = 10"
definition PREC_PRIMARY :: Precedence where "PREC_PRIMARY = 11"

text \<open>The parse functions a rule can point to.\<close>

datatype ParseFunc =
    PF_group | PF_call | PF_object | PF_index | PF_dot | PF_concat | PF_unary | PF_binary
  | PF_predecrement | PF_preincrement | PF_variable | PF_string | PF_number | PF_literal
  | PF_and | PF_or | PF_anonFunction

record ParseRule =
  prefixFn :: "ParseFunc option"
  infixFn :: "ParseFunc option"
  level :: Precedence

definition mkRule :: "ParseFunc option \<Rightarrow> ParseFunc option \<Rightarrow> Precedence \<Rightarrow> ParseRule" where
  "mkRule p i l = \<lparr>prefixFn = p, infixFn = i, level = l\<rparr>"

definition getRule :: "CTokenType \<Rightarrow> ParseRule" where
  "getRule t = (case t of
      TOKEN_LEFT_PAREN \<Rightarrow> mkRule (Some PF_group) (Some PF_call) PREC_CALL
    | TOKEN_LEFT_BRACE \<Rightarrow> mkRule (Some PF_object) None PREC_NONE
    | TOKEN_LEFT_BRACKET \<Rightarrow> mkRule None (Some PF_index) PREC_CALL
    | TOKEN_DOT \<Rightarrow> mkRule None (Some PF_dot) PREC_CALL
    | TOKEN_DOT_DOT \<Rightarrow> mkRule None (Some PF_concat) PREC_CONCAT
    | TOKEN_MINUS \<Rightarrow> mkRule (Some PF_unary) (Some PF_binary) PREC_TERM
    | TOKEN_MINUS_MINUS \<Rightarrow> mkRule (Some PF_predecrement) None PREC_TERM
    | TOKEN_PLUS \<Rightarrow> mkRule None (Some PF_binary) PREC_TERM
    | TOKEN_PLUS_PLUS \<Rightarrow> mkRule (Some PF_preincrement) None PREC_TERM
    | TOKEN_SLASH \<Rightarrow> mkRule None (Some PF_binary) PREC_FACTOR
    | TOKEN_STAR \<Rightarrow> mkRule None (Some PF_binary) PREC_FACTOR
    | TOKEN_PERCENT \<Rightarrow> mkRule None (Some PF_binary) PREC_FACTOR
    | TOKEN_POUND \<Rightarrow> mkRule (Some PF_unary) None PREC_NONE
    | TOKEN_BANG \<Rightarrow> mkRule (Some PF_unary) None PREC_NONE
    | TOKEN_BANG_EQUAL \<Rightarrow> mkRule None (Some PF_binary) PREC_EQUALITY
    | TOKEN_EQUAL_EQUAL \<Rightarrow> mkRule None (Some PF_binary) PREC_EQUALITY
    | TOKEN_GREATER \<Rightarrow> mkRule None (Some PF_binary) PREC_COMPARISON
    | TOKEN_GREATER_EQUAL \<Rightarrow> mkRule None (Some PF_binary) PREC_COMPARISON
    | TOKEN_LESS \<Rightarrow> mkRule None (Some PF_binary) PREC_COMPARISON
    | TOKEN_LESS_EQUAL \<Rightarrow> mkRule None (Some PF_binary) PREC_COMPARISON
    | TOKEN_IDENTIFIER \<Rightarrow> mkRule (Some PF_variable) None PREC_NONE
    | TOKEN_STRING \<Rightarrow> mkRule (Some PF_string) None PREC_NONE
    | TOKEN_NUMBER \<Rightarrow> mkRule (Some PF_number) None PREC_NONE
    | TOKEN_NIL \<Rightarrow> mkRule (Some PF_literal) None PREC_NONE
    | TOKEN_TRUE \<Rightarrow> mkRule (Some PF_literal) None PREC_NONE
    | TOKEN_FALSE \<Rightarrow> mkRule (Some PF_literal) None PREC_NONE
    | TOKEN_AND \<Rightarrow> mkRule None (Some PF_and) PREC_AND
    | TOKEN_FUNCTION \<Rightarrow> mkRule (Some PF_anonFunction) None PREC_NONE
    | TOKEN_OR \<Rightarrow> mkRule None (Some PF_or) PREC_OR
    | _ \<Rightarrow> mkRule None None PREC_NONE)"

section \<open>Results of a parse function\<close>

text \<open>
  The C code has two ways of going wrong that are not compile errors: it calls the
  \<^verbatim>\<open>infix\<close> pointer of a rule without testing it for \<^verbatim>\<open>NULL\<close>, and it writes into the
  \<open>locals\<close> and \<open>upvalues\<close> arrays at an index it has not bounded.  Both are results of their
  own.  \<open>OutOfFuel\<close> is the result of a run that was cut off (see \<open>run\<close> below).

  No parse function raises the third fault, \<open>GCNotFrozen\<close>.  It is the answer of the
  watched run \<open>frozenRun\<close> below, which refuses to enter a parse function while the
  freeze counter of the VM is not the one it watches for.
\<close>

datatype fault = NullFunctionCall | ArrayOutOfBounds | GCNotFrozen

datatype result = OutOfFuel | Fault fault | Ok int CParseState

definition andThen :: "result \<Rightarrow> (int \<Rightarrow> CParseState \<Rightarrow> result) \<Rightarrow> result" where
  "andThen m f = (case m of OutOfFuel \<Rightarrow> OutOfFuel | Fault e \<Rightarrow> Fault e | Ok r s \<Rightarrow> f r s)"

section \<open>Front end: talking to the lexer\<close>

text \<open>
  Modelled from the spec: \<^verbatim>\<open>cosmoL_scanToken\<close> (the lexer is not among the sources).  The
  lexer turns the source text into a stream of tokens and ends it with an EOF token, which
  it keeps returning; the model takes the stream as its input.
\<close>

definition eofToken :: CToken where
  "eofToken = \<lparr>tok_type = TOKEN_EOF, tok_text = [], tok_rest = [], tok_line = 0\<rparr>"

definition cosmoL_scanToken :: "CToken list \<Rightarrow> CToken \<times> CToken list" where
  "cosmoL_scanToken l = (case l of [] \<Rightarrow> (eofToken, []) | t # ts \<Rightarrow> (t, ts))"

definition errorAt :: "CToken \<Rightarrow> string \<Rightarrow> CParseState \<Rightarrow> CParseState" where
  "errorAt token msg s =
     (if hadError s then s
      else s\<lparr>diagnostics := diagnostics s @
                [(tok_line token,
                  (if tok_type token = TOKEN_EOF then '' at end''
                   else if tok_type token \<noteq> TOKEN_ERROR
                   then '' at '' @ [CHR 0x27] @ tok_text token @ [CHR 0x27]
                   else []),
                  msg)],
             hadError := True, panic := True\<rparr>)"

definition errorAtCurrent :: "string \<Rightarrow> CParseState \<Rightarrow> CParseState" where
  "errorAtCurrent msg s = errorAt (current s) msg s"

definition error :: "string \<Rightarrow> CParseState \<Rightarrow> CParseState" where
  "error msg s = errorAt (previous s) msg s"

definition advance :: "CParseState \<Rightarrow> CParseState" where
  "advance s =
     (let (t, l) = cosmoL_scanToken (lex s);
          s1 = s\<lparr>previous := current s, current := t, lex := l\<rparr>
      in if tok_type (current s1) = TOKEN_ERROR then errorAtCurrent (tok_text (current s1)) s1
         else s1)"

definition check :: "CTokenType \<Rightarrow> CParseState \<Rightarrow> bool" where
  "check ty s = (tok_type (current s) = ty)"

definition consume :: "CTokenType \<Rightarrow> string \<Rightarrow> CParseState \<Rightarrow> CParseState" where
  "consume ty msg s = (if tok_type (current s) = ty then advance s else errorAtCurrent msg s)"

text \<open>
  \<^verbatim>\<open>match\<close> returns whether the token matched and advances when it did.  The parse
  functions below write a use of it, \<^verbatim>\<open>if (match(pstate, T)) A else B\<close>, as
  \<open>if check T s then A (advance s) else B s\<close>.
\<close>

definition match :: "CTokenType \<Rightarrow> CParseState \<Rightarrow> bool \<times> CParseState" where
  "match ty s = (if \<not> check ty s then (False, s) else (True, advance s))"

definition identifiersEqual :: "CToken \<Rightarrow> CToken \<Rightarrow> bool" where
  "identifiersEqual idA idB = (tok_text idA = tok_text idB)"

definition valuePushed :: "int \<Rightarrow> CParseState \<Rightarrow> CParseState" where
  "valuePushed values s =
     s\<lparr>compiler := (compiler s)\<lparr>pushedValues := pushedValues (compiler s) + values\<rparr>\<rparr>"

definition valuePopped :: "int \<Rightarrow> CParseState \<Rightarrow> CParseState" where
  "valuePopped values s =
     s\<lparr>compiler := (compiler s)\<lparr>pushedValues := pushedValues (compiler s) - values\<rparr>\<rparr>"

definition blockFollow :: "CToken \<Rightarrow> bool" where
  "blockFollow token =
     (tok_type token = TOKEN_END \<or> tok_type token = TOKEN_ELSE \<or>
      tok_type token = TOKEN_ELSEIF \<or> tok_type token = TOKEN_EOS)"

section \<open>Writing to the chunk\<close>

definition getFunction :: "CParseState \<Rightarrow> CObjFunction" where
  "getFunction s = objects (state s) (cfunction (compiler s))"

definition updFunction :: "(CObjFunction \<Rightarrow> CObjFunction) \<Rightarrow> CParseState \<Rightarrow> CParseState" where
  "updFunction g s =
     s\<lparr>state := (state s)\<lparr>objects :=
        (objects (state s))(cfunction (compiler s) := g (objects (state s) (cfunction (compiler s))))\<rparr>\<rparr>"

definition getChunk :: "CParseState \<Rightarrow> CChunk" where
  "getChunk s = chunk (getFunction s)"

definition updChunk :: "(CChunk \<Rightarrow> CChunk) \<Rightarrow> CParseState \<Rightarrow> CParseState" where
  "updChunk g s = updFunction (\<lambda>f. f\<lparr>chunk := g (chunk f)\<rparr>) s"

definition count :: "CChunk \<Rightarrow> int" where
  "count c = int (length (buf c))"

text \<open>
  Modelled from the spec: \<^verbatim>\<open>writeu8Chunk\<close>, \<^verbatim>\<open>writeu16Chunk\<close> and \<^verbatim>\<open>addConstant\<close> of the
  chunk module, which is not among the sources.  A chunk is a flat byte buffer with one
  line-table entry per byte and a constant pool; 16-bit operands are little-endian;
  \<^verbatim>\<open>addConstant\<close> appends the value to the pool and returns its index.
\<close>

definition writeu8Chunk :: "INSTRUCTION \<Rightarrow> int \<Rightarrow> CChunk \<Rightarrow> CChunk" where
  "writeu8Chunk i ln c = c\<lparr>buf := buf c @ [i], lineInfo := lineInfo c @ [ln]\<rparr>"

definition writeu16Chunk :: "16 word \<Rightarrow> int \<Rightarrow> CChunk \<Rightarrow> CChunk" where
  "writeu16Chunk i ln c =
     writeu8Chunk (U8 (ucast (drop_bit 8 i))) ln (writeu8Chunk (U8 (ucast i)) ln c)"

definition addConstant :: "CValue \<Rightarrow> CChunk \<Rightarrow> int \<times> CChunk" where
  "addConstant val c = (int (length (constants c)), c\<lparr>constants := constants c @ [val]\<rparr>)"

definition makeConstant :: "CValue \<Rightarrow> CParseState \<Rightarrow> 16 word \<times> CParseState" where
  "makeConstant val s =
     (let (indx, c) = addConstant val (getChunk s);
          s1 = updChunk (\<lambda>_. c) s
      in if indx > 65535
         then (0, error ''UInt overflow! Too many constants in one chunk!'' s1)
         else (word_of_int indx, s1))"

definition writeu8 :: "INSTRUCTION \<Rightarrow> CParseState \<Rightarrow> CParseState" where
  "writeu8 i s = updChunk (writeu8Chunk i (tok_line (previous s))) s"

definition writeu16 :: "16 word \<Rightarrow> CParseState \<Rightarrow> CParseState" where
  "writeu16 i s = updChunk (writeu16Chunk i (tok_line (previous s))) s"

definition writeConstant :: "CValue \<Rightarrow> CParseState \<Rightarrow> CParseState" where
  "writeConstant val s =
     (let s1 = writeu8 (OP OP_LOADCONST) s;
          (k, s2) = makeConstant val s1
      in valuePushed 1 (writeu16 k s2))"

definition writeJmp :: "COPCODE \<Rightarrow> CParseState \<Rightarrow> int \<times> CParseState" where
  "writeJmp i s =
     (let s1 = writeu16 65535 (writeu8 (OP i) s) in (count (getChunk s1) - 2, s1))"

definition writePop :: "int \<Rightarrow> CParseState \<Rightarrow> CParseState" where
  "writePop n s = writeu8 (U8 (word_of_int n)) (writeu8 (OP OP_POP) s)"

definition writeJmpBack :: "int \<Rightarrow> CParseState \<Rightarrow> CParseState" where
  "writeJmpBack location s =
     (let jmp = (count (getChunk s) - location) + 3;
          s1 = (if jmp > 65535 then error ''UInt overflow! Too much code to jump!'' s else s)
      in writeu16 (word_of_int jmp) (writeu8 (OP OP_JMPBACK) s1))"

text \<open>
  \<^verbatim>\<open>patchJmp\<close> computes the distance as \<^verbatim>\<open>unsigned int\<close> and copies its two low bytes over
  the placeholder.  \<open>index\<close> is always an offset that \<^verbatim>\<open>writeJmp\<close> returned for this chunk.
\<close>

definition patchJmp :: "int \<Rightarrow> CParseState \<Rightarrow> CParseState" where
  "patchJmp index s =
     (let jump = (word_of_int (count (getChunk s) - index - 2) :: 32 word);
          s1 = (if uint jump > 65535 then error ''UInt overflow! Too much code to jump!'' s else s)
      in updChunk (\<lambda>c. c\<lparr>buf := (buf c)[nat index := U8 (ucast jump),
                                         nat (index + 1) := U8 (ucast (drop_bit 8 jump))]\<rparr>) s1)"

definition identifierConstant :: "CToken \<Rightarrow> CParseState \<Rightarrow> 16 word \<times> CParseState" where
  "identifierConstant name s = makeConstant (CString (tok_text name)) s"

section \<open>Locals and upvalues\<close>

definition addLocal :: "CToken \<Rightarrow> CParseState \<Rightarrow> CParseState" where
  "addLocal name s =
     (if localCount (compiler s) > 255
      then error ''UInt overflow! Too many locals in scope!'' s
      else s\<lparr>compiler := (compiler s)\<lparr>
             locals := (locals (compiler s))
                (localCount (compiler s) := \<lparr>lname = name, depth = -1, isCaptured = False\<rparr>),
             localCount := localCount (compiler s) + 1\<rparr>\<rparr>)"

text \<open>The search loop of \<^verbatim>\<open>addUpvalue\<close>: the first \<open>i\<close> from \<open>i\<close> on, among \<open>n\<close> entries.\<close>

primrec findUpvalue :: "(int \<Rightarrow> Upvalue) \<Rightarrow> 8 word \<Rightarrow> bool \<Rightarrow> int \<Rightarrow> nat \<Rightarrow> int option" where
  "findUpvalue ups indx isLoc i 0 = None"
| "findUpvalue ups indx isLoc i (Suc n) =
     (if uv_index (ups i) = indx \<and> isLocal (ups i) = isLoc then Some i
      else findUpvalue ups indx isLoc (i + 1) n)"

text \<open>
  \<^verbatim>\<open>addUpvalue\<close> has no bound check (the source says
  \<^verbatim>\<open>// TODO: throw error if upvals >= UINT8_MAX\<close>): with 256 upvalues already there it
  writes \<^verbatim>\<open>upvalues[256]\<close>, past the array.  The count is in the function object.
\<close>

definition addUpvalue ::
  "CCompilerState \<Rightarrow> 8 word \<Rightarrow> bool \<Rightarrow> CState \<Rightarrow> fault + (int \<times> CCompilerState \<times> CState)" where
  "addUpvalue ccstate indx isLoc st =
     (let n = upvals (objects st (cfunction ccstate)) in
      case findUpvalue (upvalues ccstate) indx isLoc 0 (nat n) of
        Some i \<Rightarrow> Inr (i, ccstate, st)
      | None \<Rightarrow>
          if n < 0 \<or> n > 255 then Inl ArrayOutOfBounds
          else Inr (n,
                 ccstate\<lparr>upvalues := (upvalues ccstate)(n := \<lparr>uv_index = indx, isLocal = isLoc\<rparr>)\<rparr>,
                 st\<lparr>objects := (objects st)(cfunction ccstate :=
                      (objects st (cfunction ccstate))\<lparr>upvals := n + 1\<rparr>)\<rparr>))"

text \<open>The loop of \<^verbatim>\<open>getLocal\<close>, from \<open>i = n - 1\<close> down to 0.\<close>

primrec getLocal_from :: "(int \<Rightarrow> Local) \<Rightarrow> CToken \<Rightarrow> nat \<Rightarrow> int" where
  "getLocal_from ls name 0 = -1"
| "getLocal_from ls name (Suc n) =
     (if depth (ls (int n)) \<noteq> -1 \<and> identifiersEqual name (lname (ls (int n))) then int n
      else getLocal_from ls name n)"

definition getLocal :: "CCompilerState \<Rightarrow> CToken \<Rightarrow> int" where
  "getLocal ccstate name = getLocal_from (locals ccstate) name (nat (localCount ccstate))"

text \<open>
  \<^verbatim>\<open>getUpvalue(ccstate, name)\<close>, with \<open>encl\<close> the chain \<^verbatim>\<open>ccstate->enclosing\<close>.  It returns
  the index (or -1) and the compiler states and function objects it has changed.
\<close>

fun getUpvalue ::
  "CCompilerState \<Rightarrow> CCompilerState list \<Rightarrow> CToken \<Rightarrow> CState \<Rightarrow>
     fault + (int \<times> CCompilerState \<times> CCompilerState list \<times> CState)" where
  "getUpvalue ccstate [] name st = Inr (-1, ccstate, [], st)"
| "getUpvalue ccstate (e # es) name st =
     (let local = getLocal e name in
      if local \<noteq> -1 then
        (let e' = e\<lparr>locals := (locals e)(local := (locals e local)\<lparr>isCaptured := True\<rparr>)\<rparr> in
         case addUpvalue ccstate (word_of_int local) True st of
           Inl f \<Rightarrow> Inl f
         | Inr (i, c', st') \<Rightarrow> Inr (i, c', e' # es, st'))
      else
        (case getUpvalue e es name st of
           Inl f \<Rightarrow> Inl f
         | Inr (upval, e', es', st') \<Rightarrow>
             if upval \<noteq> -1 then
               (case addUpvalue ccstate (word_of_int upval) False st' of
                  Inl f \<Rightarrow> Inl f
                | Inr (i, c', st'') \<Rightarrow> Inr (i, c', e' # es', st''))
             else Inr (-1, ccstate, e' # es', st')))"

definition markInitialized :: "int \<Rightarrow> CParseState \<Rightarrow> CParseState" where
  "markInitialized local s =
     s\<lparr>compiler := (compiler s)\<lparr>locals := (locals (compiler s))
          (local := (locals (compiler s) local)\<lparr>depth := scopeDepth (compiler s)\<rparr>)\<rparr>\<rparr>"

definition alignStack :: "int \<Rightarrow> CParseState \<Rightarrow> CParseState" where
  "alignStack alignment s =
     (let s1 = (if pushedValues (compiler s) > alignment
                then writePop (pushedValues (compiler s) - alignment) s
                else if pushedValues (compiler s) < alignment
                then error ''Missing expression!'' s
                else s)
      in s1\<lparr>compiler := (compiler s1)\<lparr>pushedValues := alignment\<rparr>\<rparr>)"
section \<open>Declaring and defining variables, scopes and loops\<close>

text \<open>The loop of \<^verbatim>\<open>declareLocal\<close>, at index \<open>i\<close> with \<open>n\<close> locals still to look at.\<close>

primrec declareLocal_loop :: "CToken \<Rightarrow> int \<Rightarrow> nat \<Rightarrow> CParseState \<Rightarrow> CParseState" where
  "declareLocal_loop name i 0 s = s"
| "declareLocal_loop name i (Suc n) s =
     (let local = locals (compiler s) i in
      if depth local \<noteq> -1 \<and> scopeDepth (compiler s) > depth local then s
      else declareLocal_loop name (i + 1) n
             (if identifiersEqual name (lname local)
              then error ''There's already a local in scope with this name!'' s
              else s))"

definition declareLocal :: "bool \<Rightarrow> CParseState \<Rightarrow> CParseState" where
  "declareLocal forceLocal s =
     (if scopeDepth (compiler s) = 0 \<and> \<not> forceLocal then s
      else addLocal (previous s)
             (declareLocal_loop (previous s) 0 (nat (localCount (compiler s))) s))"

definition parseVariable :: "string \<Rightarrow> bool \<Rightarrow> CParseState \<Rightarrow> 16 word \<times> CParseState" where
  "parseVariable errorMessage forceLocal s =
     (let s1 = declareLocal forceLocal (consume TOKEN_IDENTIFIER errorMessage s) in
      if scopeDepth (compiler s1) > 0 \<or> forceLocal
      then (word_of_int (localCount (compiler s1) - 1), s1)
      else identifierConstant (previous s1) s1)"

definition defineVariable :: "16 word \<Rightarrow> bool \<Rightarrow> CParseState \<Rightarrow> CParseState" where
  "defineVariable global forceLocal s =
     (if hadError s then s
      else if scopeDepth (compiler s) > 0 \<or> forceLocal
      then valuePopped 1 (markInitialized (uint global) s)
      else valuePopped 1 (writeu16 global (writeu8 (OP OP_SETGLOBAL) s)))"

text \<open>
  The loop of \<^verbatim>\<open>popLocals\<close>; \<open>localsToPop\<close> is its counter, returned with the state.
\<close>

function popLocals_loop :: "int \<Rightarrow> int \<Rightarrow> CParseState \<Rightarrow> CParseState \<times> int" where
  "popLocals_loop toScope localsToPop s =
     (if localCount (compiler s) > 0 \<and>
         depth (locals (compiler s) (localCount (compiler s) - 1)) > toScope
      then
        (let local = locals (compiler s) (localCount (compiler s) - 1);
             s1 = (if isCaptured local
                   then writeu8 (OP OP_CLOSE)
                          (if localsToPop > 0 then writePop localsToPop s else s)
                   else s);
             n = (if isCaptured local then 0 else localsToPop + 1)
         in popLocals_loop toScope n
              (s1\<lparr>compiler := (compiler s1)\<lparr>localCount := localCount (compiler s1) - 1\<rparr>\<rparr>))
      else (s, localsToPop))"
  by pat_completeness auto
termination
  by (relation "measure (\<lambda>(toScope, localsToPop, s). nat (localCount (compiler s)))")
     (auto simp: writeu8_def writePop_def updChunk_def updFunction_def)

declare popLocals_loop.simps [simp del]

definition popLocals :: "int \<Rightarrow> CParseState \<Rightarrow> CParseState" where
  "popLocals toScope s =
     (if hadError s then s
      else (let (s1, localsToPop) = popLocals_loop toScope 0 s in
            if localsToPop > 0 then writePop localsToPop s1 else s1))"

definition beginScope :: "CParseState \<Rightarrow> CParseState" where
  "beginScope s = s\<lparr>compiler := (compiler s)\<lparr>scopeDepth := scopeDepth (compiler s) + 1\<rparr>\<rparr>"

definition endScope :: "CParseState \<Rightarrow> CParseState" where
  "endScope s =
     (let s1 = s\<lparr>compiler := (compiler s)\<lparr>scopeDepth := scopeDepth (compiler s) - 1\<rparr>\<rparr>
      in popLocals (scopeDepth (compiler s1)) s1)"

definition startLoop :: "CParseState \<Rightarrow> CParseState" where
  "startLoop s =
     s\<lparr>compiler := (compiler s)\<lparr>loop :=
         \<lparr>breaks = [], scope = scopeDepth (compiler s), startBytecode = count (getChunk s)\<rparr>\<rparr>\<rparr>"

text \<open>
  \<^verbatim>\<open>endLoop\<close> patches the recorded breaks from the last one to the first and leaves
  \<open>breakCount\<close> at 0.
\<close>

definition endLoop :: "CParseState \<Rightarrow> CParseState" where
  "endLoop s =
     (let s1 = fold patchJmp (rev (breaks (loop (compiler s)))) s
      in s1\<lparr>compiler := (compiler s1)\<lparr>loop := (loop (compiler s1))\<lparr>breaks := []\<rparr>\<rparr>\<rparr>)"

definition breakStatement :: "CParseState \<Rightarrow> CParseState" where
  "breakStatement s =
     (if scope (loop (compiler s)) = -1
      then error '''break' cannot be used outside of a loop body!'' s
      else
        (let savedLocals = localCount (compiler s);
             s1 = popLocals (scope (loop (compiler s))) s;
             s2 = s1\<lparr>compiler := (compiler s1)\<lparr>localCount := savedLocals\<rparr>\<rparr>;
             (j, s3) = writeJmp OP_JMP s2
         in s3\<lparr>compiler := (compiler s3)\<lparr>loop :=
               (loop (compiler s3))\<lparr>breaks := breaks (loop (compiler s3)) @ [j]\<rparr>\<rparr>\<rparr>))"

definition continueStatement :: "CParseState \<Rightarrow> CParseState" where
  "continueStatement s =
     (if scope (loop (compiler s)) = -1
      then error '''continue' cannot be used outside of a loop body!'' s
      else
        (let savedLocals = localCount (compiler s);
             s1 = popLocals (scope (loop (compiler s))) s;
             s2 = s1\<lparr>compiler := (compiler s1)\<lparr>localCount := savedLocals\<rparr>\<rparr>
         in writeJmpBack (startBytecode (loop (compiler s2))) s2))"

text \<open>
  \<^verbatim>\<open>synchronize\<close> clears \<open>panic\<close> and then skips tokens until the previous token is
  \<^verbatim>\<open>;\<close> or the current one is EOF.  Every \<open>advance\<close> either shortens the pending input or
  reaches EOF, so the loop ends.
\<close>

function synchronize_loop :: "CParseState \<Rightarrow> CParseState" where
  "synchronize_loop s =
     (if tok_type (current s) \<noteq> TOKEN_EOF
      then (if tok_type (previous s) = TOKEN_EOS then s else synchronize_loop (advance s))
      else s)"
  by pat_completeness auto
termination
  by (relation "measure (\<lambda>s. length (lex s) + (if tok_type (current s) \<noteq> TOKEN_EOF then 1 else 0))")
     (auto simp: advance_def cosmoL_scanToken_def errorAtCurrent_def errorAt_def eofToken_def
           Let_def split: list.splits)

declare synchronize_loop.simps [simp del]

definition synchronize :: "CParseState \<Rightarrow> CParseState" where
  "synchronize s = synchronize_loop (s\<lparr>panic := False\<rparr>)"

section \<open>Compiler states\<close>

text \<open>
  Modelled from the spec: \<^verbatim>\<open>cosmoO_newFunction\<close> (the object module is not among the sources)
  allocates a function object with an empty chunk, no parameters and no upvalues.  The
  name of the top-level chunk is the macro \<^verbatim>\<open>UNNAMEDCHUNK\<close> of a header that is not among
  the sources either.
\<close>

definition UNNAMEDCHUNK :: string where
  "UNNAMEDCHUNK = ''_main''"

definition newFunction :: CObjFunction where
  "newFunction = \<lparr>chunk = \<lparr>buf = [], lineInfo = [], constants = []\<rparr>, fargs = 0, upvals = 0,
                   variadic = False, fname = [], fmodule = []\<rparr>"

text \<open>
  A compiler state is a C local variable: \<^verbatim>\<open>initCompilerState\<close> sets its scalar fields, the
  scope of its loop state and its first local, the slot that holds the running function or
  the bound object.  The rest of the two arrays is uninitialised memory in C, which no
  code reads before writing it; the model fills it with blank entries.
\<close>

definition noName :: CToken where
  "noName = \<lparr>tok_type = TOKEN_IDENTIFIER, tok_text = [], tok_rest = [], tok_line = 0\<rparr>"

definition initCompilerState ::
  "FunctionType \<Rightarrow> CCompilerState list \<Rightarrow> CParseState \<Rightarrow> CParseState" where
  "initCompilerState ty encl s =
     (let a = nobjects (state s);
          f = newFunction\<lparr>fmodule := pmodule s,
                fname := (if ty \<noteq> FTYPE_SCRIPT then tok_text (previous s) else UNNAMEDCHUNK)\<rparr>;
          ccstate = \<lparr>locals = (\<lambda>_. \<lparr>lname = noName, depth = 0, isCaptured = False\<rparr>),
                     upvalues = (\<lambda>_. \<lparr>uv_index = 0, isLocal = False\<rparr>),
                     loop = \<lparr>breaks = [], scope = -1, startBytecode = 0\<rparr>,
                     cfunction = a, ftype = ty, localCount = 1, scopeDepth = 0,
                     pushedValues = 0, expectedValues = 0\<rparr>
      in s\<lparr>compiler := ccstate, enclosing := encl,
           state := (state s)\<lparr>objects := (objects (state s))(a := f), nobjects := Suc a\<rparr>\<rparr>)"

text \<open>
  \<^verbatim>\<open>initParseState\<close> leaves \<open>current\<close> and \<open>previous\<close> unset; \<^verbatim>\<open>cosmoP_compileString\<close>
  advances before anything reads them.
\<close>

definition initParseState :: "CState \<Rightarrow> CToken list \<Rightarrow> string \<Rightarrow> CParseState" where
  "initParseState st source module =
     initCompilerState FTYPE_SCRIPT []
       \<lparr>lex = source,
        compiler = \<lparr>locals = (\<lambda>_. \<lparr>lname = noName, depth = 0, isCaptured = False\<rparr>),
                    upvalues = (\<lambda>_. \<lparr>uv_index = 0, isLocal = False\<rparr>),
                    loop = \<lparr>breaks = [], scope = -1, startBytecode = 0\<rparr>,
                    cfunction = 0, ftype = FTYPE_SCRIPT, localCount = 0, scopeDepth = 0,
                    pushedValues = 0, expectedValues = 0\<rparr>,
        enclosing = [], pmodule = module, state = st, current = eofToken, previous = eofToken,
        hadError = False, panic = False, diagnostics = []\<rparr>"

text \<open>
  \<^verbatim>\<open>endCompiler\<close> returns the finished function and makes the enclosing compiler state the
  current one.  For the top-level compiler C leaves \<^verbatim>\<open>pstate->compiler = NULL\<close>; nothing
  reads it afterwards, and the model leaves the finished state in place.
\<close>

definition endCompiler :: "CParseState \<Rightarrow> nat \<times> CParseState" where
  "endCompiler s =
     (let s1 = popLocals (scopeDepth (compiler s)) s;
          s2 = writeu8 (U8 1) (writeu8 (OP OP_RETURN) (writeu8 (OP OP_NIL) s1))
      in (cfunction (compiler s2),
          (case enclosing s2 of [] \<Rightarrow> s2 | e # es \<Rightarrow> s2\<lparr>compiler := e, enclosing := es\<rparr>)))"
section \<open>The parser\<close>

text \<open>
  The parse functions call each other recursively, and the recursion is not bounded by the
  input (see \<open>proto_loop\<close>).  Each function is written here with the recursive calls it
  makes passed in as \<open>rec\<close>; \<open>run\<close> below ties the knot with a bound on the depth of the
  calls.  A \<open>call\<close> names a function (or the loop of a function) with its arguments.
  A function whose C return type is \<^verbatim>\<open>void\<close> returns 0.
\<close>

datatype call =
    ParsePrecedence Precedence
  | InfixLoop Precedence bool
  | Expression int bool
  | ParseArgumentsLoop int
  | ConcatLoop CTokenType int
  | ObjectLoop int
  | WalkIndexesLoop int "16 word" "16 word" int int
  | Function FunctionType
  | FunctionParams
  | BlockLoop
  | IfBodyLoop
  | IfStatement
  | VarDeclaration bool int
  | VarDeclValues int
  | ProtoLoop int
  | ReturnLoop int
  | ForEachVars int
  | ExpressionStatement
  | Declaration
  | CompileLoop

type_synonym recursion = "call \<Rightarrow> CParseState \<Rightarrow> result"

subsection \<open>Expressions\<close>

text \<open>
  \<^verbatim>\<open>strtod(pstate->previous.start, NULL)\<close>: the number is read at the start of the token,
  from the token's characters and whatever follows them in the buffer.
\<close>

definition number :: "CParseState \<Rightarrow> CParseState" where
  "number s =
     writeConstant (CNumber (Strtod (tok_text (previous s) @ tok_rest (previous s)))) s"

definition string_p :: "CParseState \<Rightarrow> CParseState" where
  "string_p s = writeConstant (CString (tok_text (previous s))) s"

definition literal :: "CParseState \<Rightarrow> CParseState" where
  "literal s =
     valuePushed 1
       (if tok_type (previous s) = TOKEN_TRUE then writeu8 (OP OP_TRUE) s
        else if tok_type (previous s) = TOKEN_FALSE then writeu8 (OP OP_FALSE) s
        else if tok_type (previous s) = TOKEN_NIL then writeu8 (OP OP_NIL) s
        else s)"

definition writeLine :: "INSTRUCTION \<Rightarrow> int \<Rightarrow> CParseState \<Rightarrow> CParseState" where
  "writeLine i ln s = updChunk (writeu8Chunk i ln) s"

definition unary :: "recursion \<Rightarrow> CParseState \<Rightarrow> result" where
  "unary rec s =
     (let ty = tok_type (previous s);
          cachedLine = tok_line (previous s)
      in andThen (rec (ParsePrecedence PREC_UNARY) s) (\<lambda>_ s1.
           Ok 0 (if ty = TOKEN_MINUS then writeLine (OP OP_NEGATE) cachedLine s1
                 else if ty = TOKEN_BANG then writeLine (OP OP_NOT) cachedLine s1
                 else if ty = TOKEN_POUND then writeLine (OP OP_COUNT) cachedLine s1
                 else error ''Unexpected unary operator!'' s1)))"

definition binaryOp :: "CTokenType \<Rightarrow> int \<Rightarrow> CParseState \<Rightarrow> CParseState" where
  "binaryOp ty cachedLine s =
     (if ty = TOKEN_PLUS then writeLine (OP OP_ADD) cachedLine s
      else if ty = TOKEN_MINUS then writeLine (OP OP_SUB) cachedLine s
      else if ty = TOKEN_STAR then writeLine (OP OP_MULT) cachedLine s
      else if ty = TOKEN_SLASH then writeLine (OP OP_DIV) cachedLine s
      else if ty = TOKEN_PERCENT then writeLine (OP OP_MOD) cachedLine s
      else if ty = TOKEN_EQUAL_EQUAL then writeLine (OP OP_EQUAL) cachedLine s
      else if ty = TOKEN_GREATER then writeLine (OP OP_GREATER) cachedLine s
      else if ty = TOKEN_LESS then writeLine (OP OP_LESS) cachedLine s
      else if ty = TOKEN_GREATER_EQUAL then writeLine (OP OP_GREATER_EQUAL) cachedLine s
      else if ty = TOKEN_LESS_EQUAL then writeLine (OP OP_LESS_EQUAL) cachedLine s
      else if ty = TOKEN_BANG_EQUAL
      then writeLine (OP OP_NOT) cachedLine (writeLine (OP OP_EQUAL) cachedLine s)
      else error ''Unexpected operator!'' s)"

definition binary :: "recursion \<Rightarrow> CParseState \<Rightarrow> result" where
  "binary rec s =
     (let ty = tok_type (previous s);
          cachedLine = tok_line (previous s)
      in andThen (rec (ParsePrecedence (level (getRule ty) + 1)) s) (\<lambda>_ s1.
           Ok 0 (valuePopped 1 (binaryOp ty cachedLine s1))))"

definition group :: "recursion \<Rightarrow> CParseState \<Rightarrow> result" where
  "group rec s =
     andThen (rec (Expression 1 True) s) (\<lambda>_ s1.
       Ok 0 (consume TOKEN_RIGHT_PAREN (''Expected ')'' @ [CHR 0x27]) s1))"

definition etterOP :: "COPCODE \<Rightarrow> int \<Rightarrow> CParseState \<Rightarrow> CParseState" where
  "etterOP op arg s =
     (let s1 = writeu8 (OP op) s in
      if op = OP_GETGLOBAL \<or> op = OP_SETGLOBAL then writeu16 (word_of_int arg) s1
      else writeu8 (U8 (word_of_int arg)) s1)"

text \<open>
  The first part of \<^verbatim>\<open>namedVariable\<close>, which \<^verbatim>\<open>increment\<close> repeats: the get, set and
  increment opcodes for the name and their operand.
\<close>

definition resolveVariable ::
  "CToken \<Rightarrow> CParseState \<Rightarrow> fault + ((COPCODE \<times> COPCODE \<times> COPCODE \<times> int) \<times> CParseState)" where
  "resolveVariable name s =
     (let arg = getLocal (compiler s) name in
      if arg \<noteq> -1 then Inr ((OP_GETLOCAL, OP_SETLOCAL, OP_INCLOCAL, arg), s)
      else
        (case getUpvalue (compiler s) (enclosing s) name (state s) of
           Inl f \<Rightarrow> Inl f
         | Inr (upval, c, es, st) \<Rightarrow>
             (let s1 = s\<lparr>compiler := c, enclosing := es, state := st\<rparr> in
              if upval \<noteq> -1 then Inr ((OP_GETUPVAL, OP_SETUPVAL, OP_INCUPVAL, upval), s1)
              else (let (k, s2) = identifierConstant name s1
                    in Inr ((OP_GETGLOBAL, OP_SETGLOBAL, OP_INCGLOBAL, uint k), s2)))))"

text \<open>The operand of an increment instruction: 16 bits for a global, 8 bits otherwise.\<close>

definition writeIncArg :: "COPCODE \<Rightarrow> int \<Rightarrow> CParseState \<Rightarrow> CParseState" where
  "writeIncArg inc arg s =
     (if inc = OP_INCGLOBAL then writeu16 (word_of_int arg) s
      else writeu8 (U8 (word_of_int arg)) s)"

definition namedVariable :: "recursion \<Rightarrow> CToken \<Rightarrow> bool \<Rightarrow> bool \<Rightarrow> CParseState \<Rightarrow> result" where
  "namedVariable rec name canAssign canIncrement s =
     (case resolveVariable name s of
        Inl f \<Rightarrow> Fault f
      | Inr ((opGet, opSet, inc, arg), s1) \<Rightarrow>
          if canAssign \<and> check TOKEN_EQUAL s1 then
            andThen (rec (Expression 1 True) (advance s1)) (\<lambda>_ s2.
              Ok 0 (valuePopped 1 (etterOP opSet arg s2)))
          else if canIncrement \<and> check TOKEN_PLUS_PLUS s1 then
            Ok 0 (valuePushed 1 (writeIncArg inc arg
                    (writeu8 (U8 (128 + 1)) (writeu8 (OP inc) (advance s1)))))
          else if canIncrement \<and> check TOKEN_MINUS_MINUS s1 then
            Ok 0 (valuePushed 1 (writeIncArg inc arg
                    (writeu8 (U8 (128 - 1)) (writeu8 (OP inc) (advance s1)))))
          else Ok 0 (valuePushed 1 (etterOP opGet arg s1)))"

definition and_p :: "recursion \<Rightarrow> CParseState \<Rightarrow> result" where
  "and_p rec s =
     (let (jump, s1) = writeJmp OP_EJMP s in
      andThen (rec (ParsePrecedence PREC_AND) (writePop 1 s1)) (\<lambda>_ s2.
        Ok 0 (patchJmp jump s2)))"

definition or_p :: "recursion \<Rightarrow> CParseState \<Rightarrow> result" where
  "or_p rec s =
     (let (elseJump, s1) = writeJmp OP_EJMP s;
          (endJump, s2) = writeJmp OP_JMP s1
      in andThen (rec (ParsePrecedence PREC_OR) (writePop 1 (patchJmp elseJump s2))) (\<lambda>_ s3.
           Ok 0 (patchJmp endJump s3)))"

definition variable :: "recursion \<Rightarrow> bool \<Rightarrow> CParseState \<Rightarrow> result" where
  "variable rec canAssign s = namedVariable rec (previous s) canAssign True s"

definition concatLoop :: "recursion \<Rightarrow> CTokenType \<Rightarrow> int \<Rightarrow> CParseState \<Rightarrow> result" where
  "concatLoop rec ty vars s =
     andThen (rec (ParsePrecedence (level (getRule ty) + 1)) s) (\<lambda>_ s1.
       if check TOKEN_DOT_DOT s1 then rec (ConcatLoop ty (vars + 1)) (advance s1)
       else Ok (vars + 1) s1)"

definition concat_p :: "recursion \<Rightarrow> CParseState \<Rightarrow> result" where
  "concat_p rec s =
     andThen (rec (ConcatLoop (tok_type (previous s)) 1) s) (\<lambda>vars s1.
       Ok 0 (valuePopped (vars - 1) (writeu8 (U8 (word_of_int vars)) (writeu8 (OP OP_CONCAT) s1))))"

definition parseArgumentsLoop :: "recursion \<Rightarrow> int \<Rightarrow> CParseState \<Rightarrow> result" where
  "parseArgumentsLoop rec args s =
     andThen (rec (Expression 1 True) s) (\<lambda>_ s1.
       if check TOKEN_COMMA s1 then rec (ParseArgumentsLoop (args + 1)) (advance s1)
       else Ok (args + 1) s1)"

definition parseArguments :: "recursion \<Rightarrow> CParseState \<Rightarrow> result" where
  "parseArguments rec s =
     andThen (if \<not> check TOKEN_RIGHT_PAREN s then rec (ParseArgumentsLoop 0) s else Ok 0 s)
       (\<lambda>args s1.
          (let s2 = consume TOKEN_RIGHT_PAREN ''Expected ')' to end call.'' s1 in
           Ok args (if args > 255 then errorAtCurrent ''Too many arguments passed in call.'' s2
                    else s2)))"

text \<open>\<^verbatim>\<open>call_\<close> and \<^verbatim>\<open>dot\<close> keep the argument count in a \<^verbatim>\<open>uint8_t\<close>.\<close>

definition call_p :: "recursion \<Rightarrow> CParseState \<Rightarrow> result" where
  "call_p rec s =
     andThen (parseArguments rec s) (\<lambda>args s1.
       (let argCount = (word_of_int args :: 8 word);
            s2 = valuePopped (uint argCount + 1) s1;
            s3 = writeu8 (U8 (word_of_int (expectedValues (compiler s2))))
                   (writeu8 (U8 argCount) (writeu8 (OP OP_CALL) s2))
        in Ok 0 (valuePushed (expectedValues (compiler s3)) s3)))"

definition objectLoop :: "recursion \<Rightarrow> int \<Rightarrow> CParseState \<Rightarrow> result" where
  "objectLoop rec entries s =
     andThen (rec (Expression 1 True) s) (\<lambda>_ s1.
       andThen (rec (Expression 1 True)
                  (consume TOKEN_COLON ''Expected ':' to mark end of key and start of value!'' s1))
         (\<lambda>_ s2.
            (let s3 = valuePopped 2 s2 in
             if check TOKEN_COMMA s3 then
               (let s4 = advance s3 in
                if \<not> hadError s4 then rec (ObjectLoop (entries + 1)) s4
                else Ok (entries + 1) s4)
             else Ok (entries + 1) s3)))"

definition object :: "recursion \<Rightarrow> CParseState \<Rightarrow> result" where
  "object rec s =
     andThen (if check TOKEN_RIGHT_BRACE s then Ok 0 (advance s)
              else andThen (rec (ObjectLoop 0) s) (\<lambda>entries s1.
                     Ok entries (consume TOKEN_RIGHT_BRACE ''Expected '}' to end object definition.'' s1)))
       (\<lambda>entries s2.
          Ok 0 (valuePushed 1 (writeu16 (word_of_int entries) (writeu8 (OP OP_NEWDICT) s2))))"

definition dot :: "recursion \<Rightarrow> bool \<Rightarrow> CParseState \<Rightarrow> result" where
  "dot rec canAssign s =
     (let s0 = consume TOKEN_IDENTIFIER ''Expected property name after '.'.'' s;
          (name, s1) = identifierConstant (previous s0) s0
      in if canAssign \<and> check TOKEN_EQUAL s1 then
           andThen (rec (Expression 1 True) (writeu16 name (writeu8 (OP OP_LOADCONST) (advance s1))))
             (\<lambda>_ s2. Ok 0 (valuePopped 2 (writeu8 (OP OP_SETOBJECT) s2)))
         else if check TOKEN_PLUS_PLUS s1 then
           Ok 0 (writeu16 name (writeu8 (U8 (128 + 1)) (writeu8 (OP OP_INCOBJECT) (advance s1))))
         else if check TOKEN_MINUS_MINUS s1 then
           Ok 0 (writeu16 name (writeu8 (U8 (128 - 1)) (writeu8 (OP OP_INCOBJECT) (advance s1))))
         else if check TOKEN_LEFT_PAREN s1 then
           andThen (parseArguments rec (writeu16 name (writeu8 (OP OP_LOADCONST) (advance s1))))
             (\<lambda>a s2.
                (let args = (word_of_int a :: 8 word);
                     s3 = writeu8 (U8 (word_of_int (expectedValues (compiler s2))))
                            (writeu8 (U8 args) (writeu8 (OP OP_INVOKE) s2));
                     s4 = valuePopped (uint args + 1) s3
                 in Ok 0 (valuePushed (expectedValues (compiler s4)) s4)))
         else Ok 0 (writeu8 (OP OP_GETOBJECT) (writeu16 name (writeu8 (OP OP_LOADCONST) s1))))"

definition index_p :: "recursion \<Rightarrow> bool \<Rightarrow> CParseState \<Rightarrow> result" where
  "index_p rec canAssign s =
     andThen (rec (Expression 1 True) s) (\<lambda>_ s0.
       (let s1 = consume TOKEN_RIGHT_BRACKET ''Expected ']' to end index.'' s0 in
        andThen
          (if canAssign \<and> check TOKEN_EQUAL s1 then
             andThen (rec (Expression 1 True) (advance s1)) (\<lambda>_ s2.
               Ok 0 (valuePopped 2 (writeu8 (OP OP_NEWINDEX) s2)))
           else if check TOKEN_PLUS_PLUS s1 then
             Ok 0 (writeu8 (U8 (128 + 1)) (writeu8 (OP OP_INCINDEX) (advance s1)))
           else if check TOKEN_MINUS_MINUS s1 then
             Ok 0 (writeu8 (U8 (128 - 1)) (writeu8 (OP OP_INCINDEX) (advance s1)))
           else Ok 0 (writeu8 (OP OP_INDEX) s1))
          (\<lambda>_ s3. Ok 0 (valuePopped 1 s3))))"

text \<open>
  The loop of \<^verbatim>\<open>walkIndexes\<close> with its four variables, and what follows the loop.
\<close>

definition walkIndexes_end :: "16 word \<Rightarrow> int \<Rightarrow> int \<Rightarrow> CParseState \<Rightarrow> CParseState" where
  "walkIndexes_end ident indexType val s =
     (if indexType = 0 then
        valuePopped 1 (writeu16 ident (writeu8 (U8 (word_of_int (128 + val)))
          (writeu8 (OP OP_INCOBJECT) s)))
      else if indexType = 1 then
        valuePopped 2 (writeu8 (U8 (word_of_int (128 + val))) (writeu8 (OP OP_INCINDEX) s))
      else s)"

text \<open>The rest of an iteration, once \<open>ident\<close> and \<open>indexType\<close> have been set from the token.\<close>

definition walkIndexes_iter ::
  "recursion \<Rightarrow> int \<Rightarrow> 16 word \<Rightarrow> 16 word \<Rightarrow> int \<Rightarrow> int \<Rightarrow> CParseState \<Rightarrow> result" where
  "walkIndexes_iter rec lastIndexType lastIdent ident indexType val s =
     (let s1 = (if lastIndexType = 0 then
                  writeu8 (OP OP_GETOBJECT) (writeu16 lastIdent (writeu8 (OP OP_LOADCONST) s))
                else if lastIndexType = 1 then valuePopped 1 (writeu8 (OP OP_INDEX) s)
                else s)
      in andThen
           (if indexType = 1 then
              andThen (rec (Expression 1 True) s1) (\<lambda>_ s2.
                Ok 0 (consume TOKEN_RIGHT_BRACKET ''Expected ']' to end index.'' s2))
            else Ok 0 s1)
           (\<lambda>_ s3. rec (WalkIndexesLoop indexType ident ident indexType val) s3))"

definition walkIndexesLoop ::
  "recursion \<Rightarrow> int \<Rightarrow> 16 word \<Rightarrow> 16 word \<Rightarrow> int \<Rightarrow> int \<Rightarrow> CParseState \<Rightarrow> result" where
  "walkIndexesLoop rec lastIndexType lastIdent ident indexType val s =
     (if check TOKEN_DOT s then
        (let s0 = consume TOKEN_IDENTIFIER ''Expected property name after '.'.'' (advance s);
             (k, s1) = identifierConstant (previous s0) s0
         in walkIndexes_iter rec lastIndexType lastIdent k 0 val s1)
      else if check TOKEN_LEFT_BRACKET s then
        walkIndexes_iter rec lastIndexType lastIdent ident 1 val (advance s)
      else Ok 0 (walkIndexes_end ident indexType val s))"

definition walkIndexes :: "recursion \<Rightarrow> int \<Rightarrow> 16 word \<Rightarrow> int \<Rightarrow> CParseState \<Rightarrow> result" where
  "walkIndexes rec lastIndexType lastIdent val s =
     rec (WalkIndexesLoop lastIndexType lastIdent lastIdent lastIndexType val) s"

definition increment :: "recursion \<Rightarrow> int \<Rightarrow> CParseState \<Rightarrow> result" where
  "increment rec val s =
     (let name = previous s in
      andThen
        (if check TOKEN_DOT s then
           andThen (namedVariable rec name False False (advance s)) (\<lambda>_ s1.
             (let s2 = consume TOKEN_IDENTIFIER ''Expected property name after '.'.'' s1;
                  (ident, s3) = identifierConstant (previous s2) s2
              in walkIndexes rec 0 ident val s3))
         else if check TOKEN_LEFT_BRACKET s then
           andThen (namedVariable rec name False False (advance s)) (\<lambda>_ s1.
             andThen (rec (Expression 1 True) s1) (\<lambda>_ s2.
               walkIndexes rec 1 0 val
                 (consume TOKEN_RIGHT_BRACKET ''Expected ']' to end index.'' s2)))
         else
           (case resolveVariable name s of
              Inl f \<Rightarrow> Fault f
            | Inr ((opGet, opSet, op, arg), s1) \<Rightarrow>
                Ok 0 (writeIncArg op arg
                        (writeu8 (U8 (word_of_int (128 + val))) (writeu8 (OP op) s1)))))
        (\<lambda>_ s4. Ok 0 (writeu8 (OP OP_ADD) (writeConstant (CNumber (FromInt val)) s4))))"

definition preincrement :: "recursion \<Rightarrow> CParseState \<Rightarrow> result" where
  "preincrement rec s =
     increment rec 1 (consume TOKEN_IDENTIFIER (''Expected identifier after '++'' @ [CHR 0x27]) s)"

definition predecrement :: "recursion \<Rightarrow> CParseState \<Rightarrow> result" where
  "predecrement rec s =
     increment rec (-1) (consume TOKEN_IDENTIFIER (''Expected identifier after '--'' @ [CHR 0x27]) s)"

definition anonFunction :: "recursion \<Rightarrow> CParseState \<Rightarrow> result" where
  "anonFunction rec s = rec (Function FTYPE_FUNCTION) s"

text \<open>A call through a \<^verbatim>\<open>ParseFunc\<close> pointer of the rule table.\<close>

definition callParseFunc :: "recursion \<Rightarrow> ParseFunc \<Rightarrow> bool \<Rightarrow> CParseState \<Rightarrow> result" where
  "callParseFunc rec f canAssign s =
     (case f of
        PF_group \<Rightarrow> group rec s
      | PF_call \<Rightarrow> call_p rec s
      | PF_object \<Rightarrow> object rec s
      | PF_index \<Rightarrow> index_p rec canAssign s
      | PF_dot \<Rightarrow> dot rec canAssign s
      | PF_concat \<Rightarrow> concat_p rec s
      | PF_unary \<Rightarrow> unary rec s
      | PF_binary \<Rightarrow> binary rec s
      | PF_predecrement \<Rightarrow> predecrement rec s
      | PF_preincrement \<Rightarrow> preincrement rec s
      | PF_variable \<Rightarrow> variable rec canAssign s
      | PF_string \<Rightarrow> Ok 0 (string_p s)
      | PF_number \<Rightarrow> Ok 0 (number s)
      | PF_literal \<Rightarrow> Ok 0 (literal s)
      | PF_and \<Rightarrow> and_p rec s
      | PF_or \<Rightarrow> or_p rec s
      | PF_anonFunction \<Rightarrow> anonFunction rec s)"

text \<open>
  The loop of \<^verbatim>\<open>parsePrecedence\<close> reads the \<^verbatim>\<open>infix\<close> pointer of the current token's rule,
  advances, and calls the pointer without testing it: the rules of \<^verbatim>\<open>++\<close> and \<^verbatim>\<open>--\<close> have
  a precedence and no infix function.
\<close>

definition infixLoop :: "recursion \<Rightarrow> Precedence \<Rightarrow> bool \<Rightarrow> CParseState \<Rightarrow> result" where
  "infixLoop rec prec canAssign s =
     (if prec \<le> level (getRule (tok_type (current s))) then
        (let infix = infixFn (getRule (tok_type (current s)));
             s1 = advance s
         in case infix of
              None \<Rightarrow> Fault NullFunctionCall
            | Some f \<Rightarrow>
                andThen (callParseFunc rec f canAssign s1) (\<lambda>_ s2.
                  rec (InfixLoop prec canAssign) s2))
      else Ok 0 s)"

definition parsePrecedence :: "recursion \<Rightarrow> Precedence \<Rightarrow> CParseState \<Rightarrow> result" where
  "parsePrecedence rec prec s =
     (let s1 = advance s in
      case prefixFn (getRule (tok_type (previous s1))) of
        None \<Rightarrow> Ok 0 s1
      | Some prefix \<Rightarrow>
          (let canAssign = (prec \<le> PREC_ASSIGNMENT) in
           andThen (callParseFunc rec prefix canAssign s1) (\<lambda>_ s2.
             andThen (rec (InfixLoop prec canAssign) s2) (\<lambda>_ s3.
               Ok 0 (if canAssign \<and> check TOKEN_EQUAL s3
                     then error ''Invalid assignment!'' (advance s3)
                     else s3)))))"

definition expression :: "recursion \<Rightarrow> int \<Rightarrow> bool \<Rightarrow> CParseState \<Rightarrow> result" where
  "expression rec needed forceNeeded s =
     (let lastExpected = expectedValues (compiler s);
          saved = pushedValues (compiler s) + needed;
          s1 = s\<lparr>compiler := (compiler s)\<lparr>expectedValues := needed\<rparr>\<rparr>
      in andThen (rec (ParsePrecedence PREC_ASSIGNMENT) s1) (\<lambda>_ s2.
           (let s3 = (if pushedValues (compiler s2) > saved
                      then valuePopped (pushedValues (compiler s2) - saved)
                             (writePop (pushedValues (compiler s2) - saved) s2)
                      else if forceNeeded \<and> pushedValues (compiler s2) < saved
                      then error ''Missing expression!'' s2
                      else s2);
                s4 = s3\<lparr>compiler := (compiler s3)\<lparr>expectedValues := lastExpected\<rparr>\<rparr>
            in Ok (pushedValues (compiler s4) - (saved - needed)) s4)))"
subsection \<open>Statements\<close>

definition blockLoop :: "recursion \<Rightarrow> CParseState \<Rightarrow> result" where
  "blockLoop rec s =
     (if \<not> check TOKEN_END s \<and> \<not> check TOKEN_EOF s \<and> \<not> check TOKEN_ERROR s
      then andThen (rec Declaration s) (\<lambda>_ s1. rec BlockLoop s1)
      else Ok 0 s)"

definition block :: "recursion \<Rightarrow> CParseState \<Rightarrow> result" where
  "block rec s =
     andThen (rec BlockLoop s) (\<lambda>_ s1.
       Ok 0 (consume TOKEN_END ('''end' expected to end block.'' @ [CHR 0x27]) s1))"

text \<open>The \<^verbatim>\<open>do ... while (match(pstate, TOKEN_COMMA))\<close> loop of \<^verbatim>\<open>varDeclaration\<close>.\<close>

definition varDeclValues :: "recursion \<Rightarrow> int \<Rightarrow> CParseState \<Rightarrow> result" where
  "varDeclValues rec expectedVals s =
     andThen (expression rec expectedVals False (valuePopped 1 s)) (\<lambda>pushed s1.
       (let s2 = valuePushed 1 s1;
            e = expectedVals - pushed;
            s3 = (if e < 0 then valuePopped (- e) (writePop (- e) s2) else s2);
            e' = (if e < 0 then 1 else e)
        in if check TOKEN_COMMA s3 then rec (VarDeclValues e') (advance s3)
           else Ok e' s3))"

text \<open>
  \<^verbatim>\<open>while (expectedValues-- > 0) { valuePushed(pstate, 1); writeu8(pstate, OP_NIL); }\<close>
\<close>

primrec padNil :: "nat \<Rightarrow> CParseState \<Rightarrow> CParseState" where
  "padNil 0 s = s"
| "padNil (Suc n) s = padNil n (writeu8 (OP OP_NIL) (valuePushed 1 s))"

definition varDeclaration :: "recursion \<Rightarrow> bool \<Rightarrow> int \<Rightarrow> CParseState \<Rightarrow> result" where
  "varDeclaration rec forceLocal expectedVals0 s =
     (let (ident, s1) = parseVariable ''Expected identifer!'' forceLocal s;
          expectedVals = expectedVals0 + 1
      in andThen
           (if check TOKEN_EQUAL s1 then
              andThen (rec (VarDeclValues expectedVals) (advance s1)) (\<lambda>e s2.
                Ok 0 (padNil (nat e) s2))
            else if check TOKEN_COMMA s1 then
              rec (VarDeclaration forceLocal expectedVals) (advance s1)
            else Ok 0 (valuePushed 1 (writeu8 (OP OP_NIL) s1)))
           (\<lambda>_ s3. Ok 0 (defineVariable ident forceLocal s3)))"

definition ifBodyLoop :: "recursion \<Rightarrow> CParseState \<Rightarrow> result" where
  "ifBodyLoop rec s =
     (if \<not> check TOKEN_END s \<and> \<not> check TOKEN_ELSE s \<and> \<not> check TOKEN_ELSEIF s \<and>
         \<not> check TOKEN_EOF s \<and> \<not> check TOKEN_ERROR s
      then andThen (rec Declaration s) (\<lambda>_ s1. rec IfBodyLoop s1)
      else Ok 0 s)"

definition ifStatement :: "recursion \<Rightarrow> CParseState \<Rightarrow> result" where
  "ifStatement rec s =
     andThen (expression rec 1 True s) (\<lambda>_ s0.
       (let (jump, s1) = writeJmp OP_PEJMP (consume TOKEN_THEN ''Expect 'then' after expression.'' s0)
        in andThen (rec IfBodyLoop (beginScope (valuePopped 1 s1))) (\<lambda>_ s2.
             (let s3 = endScope s2 in
              if check TOKEN_ELSE s3 then
                (let (elseJump, s4) = writeJmp OP_JMP (advance s3) in
                 andThen (block rec (beginScope (patchJmp jump s4))) (\<lambda>_ s5.
                   Ok 0 (patchJmp elseJump (endScope s5))))
              else if check TOKEN_ELSEIF s3 then
                (let (elseJump, s4) = writeJmp OP_JMP (advance s3) in
                 andThen (rec IfStatement (patchJmp jump s4)) (\<lambda>_ s5.
                   Ok 0 (patchJmp elseJump s5)))
              else Ok 0 (consume TOKEN_END '''end' expected to end block.'' (patchJmp jump s3))))))"

definition whileStatement :: "recursion \<Rightarrow> CParseState \<Rightarrow> result" where
  "whileStatement rec s =
     (let cachedLoop = loop (compiler s);
          s0 = startLoop s;
          jumpLocation = count (getChunk s0)
      in andThen (expression rec 1 True s0) (\<lambda>_ s1.
           (let (exitJump, s2) =
                  writeJmp OP_PEJMP (consume TOKEN_DO ''expected 'do' after conditional expression.'' s1)
            in andThen (block rec (beginScope (valuePopped 1 s2))) (\<lambda>_ s3.
                 (let s4 = endLoop (writeJmpBack jumpLocation (endScope s3));
                      s5 = s4\<lparr>compiler := (compiler s4)\<lparr>loop := cachedLoop\<rparr>\<rparr>
                  in Ok 0 (patchJmp exitJump s5))))))"

text \<open>The parameter loop of \<^verbatim>\<open>function\<close>; it is left by \<^verbatim>\<open>break\<close> at \<^verbatim>\<open>...\<close>.\<close>

definition functionParams :: "recursion \<Rightarrow> CParseState \<Rightarrow> result" where
  "functionParams rec s =
     (if check TOKEN_DOT_DOT_DOT s then Ok 0 s
      else
        (let s1 = updFunction (\<lambda>f. f\<lparr>fargs := fargs f + 1\<rparr>) s;
             s2 = (if fargs (getFunction s1) > 65535 - 1
                   then errorAtCurrent ''Too many parameters!'' s1 else s1);
             (funcIdent, s3) = parseVariable ''Expected identifier for parameter!'' True s2;
             s4 = valuePushed 1 (defineVariable funcIdent True s3)
         in if check TOKEN_COMMA s4 then rec FunctionParams (advance s4) else Ok 0 s4))"

text \<open>The closing loop of \<^verbatim>\<open>function\<close>: one directive per upvalue of the new function.\<close>

primrec writeUpvalues :: "(int \<Rightarrow> Upvalue) \<Rightarrow> int \<Rightarrow> nat \<Rightarrow> CParseState \<Rightarrow> CParseState" where
  "writeUpvalues ups i 0 s = s"
| "writeUpvalues ups i (Suc n) s =
     writeUpvalues ups (i + 1) n
       (writeu8 (U8 (uv_index (ups i)))
          (writeu8 (OP (if isLocal (ups i) then OP_GETLOCAL else OP_GETUPVAL)) s))"

definition function_p :: "recursion \<Rightarrow> FunctionType \<Rightarrow> CParseState \<Rightarrow> result" where
  "function_p rec ty s =
     (let s0 = initCompilerState ty (compiler s # enclosing s) s;
          savedPushed = pushedValues (compiler s0);
          s1 = consume TOKEN_LEFT_PAREN ''Expected '(' after identifier.'' (beginScope s0)
      in andThen (if \<not> check TOKEN_RIGHT_PAREN s1 then rec FunctionParams s1 else Ok 0 s1)
           (\<lambda>_ s2.
              (let s3 = (if check TOKEN_DOT_DOT_DOT s2 then
                           (let (vari, sa) = parseVariable
                                  ''Expected identifier for variadic dictionary!'' True (advance s2)
                            in updFunction (\<lambda>f. f\<lparr>variadic := True\<rparr>)
                                 (valuePushed 1 (defineVariable vari True sa)))
                         else s2);
                   s4 = consume TOKEN_RIGHT_PAREN ''Expected ')' after parameters.'' s3
               in andThen (block rec s4) (\<lambda>_ s5.
                    (let s6 = endScope (alignStack savedPushed s5);
                         ups = upvalues (compiler s6);
                         (objFunc, s7) = endCompiler s6;
                         s8 = writeu8 (OP OP_CLOSURE) s7;
                         (k, s9) = makeConstant (CFunction objFunc) s8;
                         s10 = valuePushed 1 (writeu16 k s9)
                     in Ok 0 (writeUpvalues ups 0 (nat (upvals (objects (state s10) objFunc)))
                                s10))))))"

definition functionDeclaration :: "recursion \<Rightarrow> CParseState \<Rightarrow> result" where
  "functionDeclaration rec s =
     (let (var, s1) = parseVariable ''Expected identifer!'' False s;
          s2 = (if scopeDepth (compiler s1) > 0 then markInitialized (uint var) s1 else s1)
      in andThen (function_p rec FTYPE_FUNCTION s2) (\<lambda>_ s3.
           Ok 0 (defineVariable var False s3)))"

definition localFunction :: "recursion \<Rightarrow> CParseState \<Rightarrow> result" where
  "localFunction rec s =
     (let (var, s1) = parseVariable ''Expected identifer!'' True s
      in andThen (function_p rec FTYPE_FUNCTION (markInitialized (uint var) s1)) (\<lambda>_ s2.
           Ok 0 (defineVariable var True s2)))"

text \<open>
  The loop of \<^verbatim>\<open>_proto\<close>.  Nothing in it consumes a token that is neither \<^verbatim>\<open>end\<close>, EOF nor
  \<^verbatim>\<open>function\<close>: on such a token, and with no error so far, it only counts.
\<close>

definition protoLoop :: "recursion \<Rightarrow> int \<Rightarrow> CParseState \<Rightarrow> result" where
  "protoLoop rec entries s =
     (if check TOKEN_END s then Ok entries (advance s)
      else if check TOKEN_EOF s then Ok entries (advance s)
      else if hadError s then Ok entries s
      else
        andThen
          (if check TOKEN_FUNCTION s then
             (let s1 = consume TOKEN_IDENTIFIER ''Expected identifier!'' (advance s);
                  (fieldIdent, s2) = identifierConstant (previous s1) s1
              in andThen (function_p rec FTYPE_METHOD
                            (writeu16 fieldIdent (writeu8 (OP OP_LOADCONST) s2)))
                   (\<lambda>_ s3. Ok 0 (valuePopped 1 s3)))
           else Ok 0 s)
          (\<lambda>_ s4. rec (ProtoLoop (entries + 1)) s4))"

definition proto_p :: "recursion \<Rightarrow> CParseState \<Rightarrow> result" where
  "proto_p rec s =
     (let (var, s1) = parseVariable ''Expected identifer!'' False s
      in andThen (rec (ProtoLoop 0) s1) (\<lambda>entries s2.
           Ok 0 (defineVariable var False
                   (valuePushed 1 (writeu16 (word_of_int entries)
                      (writeu8 (OP OP_NEWOBJECT) s2))))))"

definition returnLoop :: "recursion \<Rightarrow> int \<Rightarrow> CParseState \<Rightarrow> result" where
  "returnLoop rec rvalues s =
     andThen (expression rec 1 True s) (\<lambda>_ s1.
       if check TOKEN_COMMA s1 then rec (ReturnLoop (rvalues + 1)) (advance s1)
       else Ok (rvalues + 1) s1)"

definition returnStatement :: "recursion \<Rightarrow> CParseState \<Rightarrow> result" where
  "returnStatement rec s =
     (if ftype (compiler s) \<noteq> FTYPE_FUNCTION \<and> ftype (compiler s) \<noteq> FTYPE_METHOD
      then Ok 0 (error ''Expected 'return' in function!'' s)
      else if blockFollow (current s)
      then Ok 0 (writeu8 (U8 1) (writeu8 (OP OP_RETURN) (writeu8 (OP OP_NIL) s)))
      else andThen (rec (ReturnLoop 0) s) (\<lambda>rvalues s1.
             Ok 0 (valuePopped rvalues
                     (writeu8 (U8 (word_of_int rvalues)) (writeu8 (OP OP_RETURN) s1)))))"

definition forEachVars :: "recursion \<Rightarrow> int \<Rightarrow> CParseState \<Rightarrow> result" where
  "forEachVars rec vals s =
     (let (funcIdent, s1) = parseVariable ''Expected identifier!'' True s;
          s2 = defineVariable funcIdent True s1
      in if check TOKEN_COMMA s2 then rec (ForEachVars (vals + 1)) (advance s2)
         else Ok (vals + 1) s2)"

text \<open>
  \<^verbatim>\<open>forEachLoop\<close> reserves a stack slot by writing \<^verbatim>\<open>locals[localCount++]\<close> without the
  bound check of \<^verbatim>\<open>addLocal\<close>.
\<close>

definition forEachLoop :: "recursion \<Rightarrow> CParseState \<Rightarrow> result" where
  "forEachLoop rec s =
     (let s0 = beginScope s in
      if localCount (compiler s0) < 0 \<or> localCount (compiler s0) > 255
      then Fault ArrayOutOfBounds
      else
        (let s1 = s0\<lparr>compiler := (compiler s0)\<lparr>
                    locals := (locals (compiler s0))(localCount (compiler s0) :=
                       \<lparr>lname = noName, depth = scopeDepth (compiler s0), isCaptured = False\<rparr>),
                    localCount := localCount (compiler s0) + 1\<rparr>\<rparr>
         in andThen (rec (ForEachVars 0) (beginScope s1)) (\<lambda>vals s2.
              if vals > 255 then Ok 0 (error ''Too many values expected!'' s2)
              else
                andThen (expression rec 1 True
                           (consume TOKEN_IN ''Expected 'in' before iterator!'' s2)) (\<lambda>_ s3.
                  (let s4 = writeu8 (OP OP_ITER)
                              (consume TOKEN_DO ''Expected 'do' before loop block!'' s3);
                       cachedLoop = loop (compiler s4);
                       s5 = startLoop s4;
                       s6 = s5\<lparr>compiler := (compiler s5)\<lparr>loop :=
                              (loop (compiler s5))\<lparr>scope := scope (loop (compiler s5)) - 1\<rparr>\<rparr>\<rparr>;
                       loopStart = count (getChunk s6);
                       s7 = writeu8 (U8 (word_of_int vals)) (writeu8 (OP OP_NEXT) s6);
                       jmpPatch = count (getChunk s7);
                       s8 = valuePushed vals (writeu16 65535 s7)
                   in andThen (block rec s8) (\<lambda>_ s9.
                        (let s10 = endLoop (writeJmpBack loopStart (endScope s9));
                             s11 = s10\<lparr>compiler := (compiler s10)\<lparr>loop := cachedLoop\<rparr>\<rparr>
                         in Ok 0 (valuePopped 1 (endScope (patchJmp jmpPatch s11))))))))))"

definition forLoop :: "recursion \<Rightarrow> CParseState \<Rightarrow> result" where
  "forLoop rec s =
     (if check TOKEN_IDENTIFIER s then forEachLoop rec s
      else
        (let s0 = consume TOKEN_LEFT_PAREN (''Expected '(' after 'for'' @ [CHR 0x27]) (beginScope s) in
         andThen
           (if \<not> check TOKEN_EOS s0 then
              andThen (rec ExpressionStatement s0) (\<lambda>_ sa.
                Ok 0 (consume TOKEN_EOS ''Expected ';' after initializer!'' sa))
            else Ok 0 (advance s0))
           (\<lambda>_ s1.
              (let cachedLoop = loop (compiler s1);
                   s2 = startLoop s1;
                   loopStart = count (getChunk s2)
               in andThen
                    (if \<not> check TOKEN_EOS s2 then
                       andThen (expression rec 1 True s2) (\<lambda>_ sa.
                         (let (exitJmp, sb) =
                                writeJmp OP_PEJMP
                                  (consume TOKEN_EOS ''Expected ';' after conditional'' sa)
                          in Ok exitJmp (valuePopped 1 sb)))
                     else Ok (-1) (advance s2))
                    (\<lambda>exitJmp s3.
                       andThen
                         (if \<not> check TOKEN_RIGHT_PAREN s3 then
                            (let (bodyJmp, sa) = writeJmp OP_JMP s3;
                                 sb = startLoop (endLoop sa);
                                 iteratorStart = count (getChunk sb)
                             in andThen (expression rec 0 True sb) (\<lambda>_ sc.
                                  Ok iteratorStart
                                    (patchJmp bodyJmp (writeJmpBack loopStart
                                       (consume TOKEN_RIGHT_PAREN ''Expected ')' after iterator'' sc)))))
                          else Ok loopStart (advance s3))
                         (\<lambda>loopStart' s4.
                            andThen (block rec (beginScope (consume TOKEN_DO (''Expected 'do'' @ [CHR 0x27]) s4)))
                              (\<lambda>_ s5.
                                 (let s6 = writeJmpBack loopStart' (endScope s5);
                                      s7 = (if exitJmp \<noteq> -1 then patchJmp exitJmp s6 else s6);
                                      s8 = endLoop s7;
                                      s9 = s8\<lparr>compiler := (compiler s8)\<lparr>loop := cachedLoop\<rparr>\<rparr>
                                  in Ok 0 (endScope s9)))))))))"

text \<open>
  \<^verbatim>\<open>expressionStatement\<close> is in two parts: \<open>statementBody\<close> is its chain of
  \<^verbatim>\<open>if (match(...))\<close>, which compiles the statement, and \<open>expressionStatement\<close> saves the
  counter, runs that chain and calls \<^verbatim>\<open>alignStack(pstate, savedPushed)\<close>.
\<close>

definition statementBody :: "recursion \<Rightarrow> CParseState \<Rightarrow> result" where
  "statementBody rec s =
        (if check TOKEN_VAR s then varDeclaration rec False 0 (advance s)
         else if check TOKEN_LOCAL s then
           (let s1 = advance s in
            if check TOKEN_FUNCTION s1 then localFunction rec (advance s1)
            else varDeclaration rec True 0 s1)
         else if check TOKEN_IF s then ifStatement rec (advance s)
         else if check TOKEN_DO s then
           andThen (block rec (beginScope (advance s))) (\<lambda>_ s1. Ok 0 (endScope s1))
         else if check TOKEN_WHILE s then whileStatement rec (advance s)
         else if check TOKEN_FOR s then forLoop rec (advance s)
         else if check TOKEN_FUNCTION s then functionDeclaration rec (advance s)
         else if check TOKEN_PROTO s then proto_p rec (advance s)
         else if check TOKEN_BREAK s then Ok 0 (breakStatement (advance s))
         else if check TOKEN_CONTINUE s then Ok 0 (continueStatement (advance s))
         else if check TOKEN_RETURN s then returnStatement rec (advance s)
         else expression rec 0 False s)"

definition expressionStatement :: "recursion \<Rightarrow> CParseState \<Rightarrow> result" where
  "expressionStatement rec s =
     (let savedPushed = pushedValues (compiler s) in
      andThen (statementBody rec s) (\<lambda>_ s2. Ok 0 (alignStack savedPushed s2)))"

definition statement :: "recursion \<Rightarrow> CParseState \<Rightarrow> result" where
  "statement rec s = expressionStatement rec s"

definition declaration_p :: "recursion \<Rightarrow> CParseState \<Rightarrow> result" where
  "declaration_p rec s =
     andThen (statement rec s) (\<lambda>_ s1. Ok 0 (if panic s1 then synchronize s1 else s1))"

text \<open>\<^verbatim>\<open>while (!match(&parser, TOKEN_EOF)) declaration(&parser);\<close>\<close>

definition compileLoop :: "recursion \<Rightarrow> CParseState \<Rightarrow> result" where
  "compileLoop rec s =
     (if check TOKEN_EOF s then Ok 0 (advance s)
      else andThen (rec Declaration s) (\<lambda>_ s1. rec CompileLoop s1))"

subsection \<open>Tying the knot\<close>

definition step :: "recursion \<Rightarrow> call \<Rightarrow> CParseState \<Rightarrow> result" where
  "step rec c s =
     (case c of
        ParsePrecedence prec \<Rightarrow> parsePrecedence rec prec s
      | InfixLoop prec canAssign \<Rightarrow> infixLoop rec prec canAssign s
      | Expression needed forceNeeded \<Rightarrow> expression rec needed forceNeeded s
      | ParseArgumentsLoop n \<Rightarrow> parseArgumentsLoop rec n s
      | ConcatLoop ty vars \<Rightarrow> concatLoop rec ty vars s
      | ObjectLoop entries \<Rightarrow> objectLoop rec entries s
      | WalkIndexesLoop lastIndexType lastIdent ident indexType val \<Rightarrow>
          walkIndexesLoop rec lastIndexType lastIdent ident indexType val s
      | Function ty \<Rightarrow> function_p rec ty s
      | FunctionParams \<Rightarrow> functionParams rec s
      | BlockLoop \<Rightarrow> blockLoop rec s
      | IfBodyLoop \<Rightarrow> ifBodyLoop rec s
      | IfStatement \<Rightarrow> ifStatement rec s
      | VarDeclaration forceLocal expectedVals \<Rightarrow> varDeclaration rec forceLocal expectedVals s
      | VarDeclValues expectedVals \<Rightarrow> varDeclValues rec expectedVals s
      | ProtoLoop entries \<Rightarrow> protoLoop rec entries s
      | ReturnLoop rvalues \<Rightarrow> returnLoop rec rvalues s
      | ForEachVars vals \<Rightarrow> forEachVars rec vals s
      | ExpressionStatement \<Rightarrow> expressionStatement rec s
      | Declaration \<Rightarrow> declaration_p rec s
      | CompileLoop \<Rightarrow> compileLoop rec s)"

text \<open>
  \<open>run n c s\<close> runs the call \<open>c\<close> from the state \<open>s\<close> with calls nested at most \<open>n\<close> deep
  (an iteration of a loop counts as a call).  A run that needs more is \<open>OutOfFuel\<close>; a run
  that is \<open>OutOfFuel\<close> for every \<open>n\<close> is a C execution that does not return.
\<close>

fun run :: "nat \<Rightarrow> call \<Rightarrow> CParseState \<Rightarrow> result" where
  "run 0 c s = OutOfFuel"
| "run (Suc n) c s = step (run n) c s"

section \<open>The API\<close>

text \<open>
  Modelled from the spec: the VM operations \<^verbatim>\<open>cosmoM_freezeGC\<close>, \<^verbatim>\<open>cosmoM_unfreezeGC\<close> and
  \<^verbatim>\<open>cosmoV_pushValue\<close>, which are not among the sources.  Freezing is counted; the value stack
  grows at its end.  \<^verbatim>\<open>cosmoO_newClosure\<close> wraps a function into a closure.
\<close>

definition cosmoM_freezeGC :: "CState \<Rightarrow> CState" where
  "cosmoM_freezeGC st = st\<lparr>freezeGC := freezeGC st + 1\<rparr>"

definition cosmoM_unfreezeGC :: "CState \<Rightarrow> CState" where
  "cosmoM_unfreezeGC st = st\<lparr>freezeGC := freezeGC st - 1\<rparr>"

definition cosmoV_pushValue :: "CValue \<Rightarrow> CState \<Rightarrow> CState" where
  "cosmoV_pushValue v st = st\<lparr>stack := stack st @ [v]\<rparr>"

text \<open>
  The first half of \<^verbatim>\<open>cosmoP_compileString\<close>, up to and including \<^verbatim>\<open>popLocals(&parser, 0)\<close>:
  everything that runs between freezing the GC and looking at \<open>hadError\<close>.  In
  \<open>compileString_with\<close> the parse functions are run by \<open>rec\<close>; \<open>compileString_parse\<close> runs
  them with \<open>run n\<close>.
\<close>

definition compileString_with ::
  "recursion \<Rightarrow> CState \<Rightarrow> CToken list \<Rightarrow> string \<Rightarrow> result" where
  "compileString_with rec st source module =
     andThen (rec CompileLoop (advance (initParseState (cosmoM_freezeGC st) source module)))
       (\<lambda>_ s. Ok 0 (popLocals 0 (consume TOKEN_EOF ''End of file expected!'' s)))"

definition compileString_parse :: "nat \<Rightarrow> CState \<Rightarrow> CToken list \<Rightarrow> string \<Rightarrow> result" where
  "compileString_parse n st source module = compileString_with (run n) st source module"

text \<open>
  What a call of \<^verbatim>\<open>cosmoP_compileString\<close> comes to: it does not return within the bound, it
  faults, or it returns a function (\<open>None\<close> is \<^verbatim>\<open>NULL\<close>) and leaves a VM state.
\<close>

datatype compiled = CompileOutOfFuel | CompileFault fault | Compiled "nat option" CState

definition cosmoP_compileString :: "nat \<Rightarrow> CState \<Rightarrow> CToken list \<Rightarrow> string \<Rightarrow> compiled" where
  "cosmoP_compileString n st source module =
     (case compileString_parse n st source module of
        OutOfFuel \<Rightarrow> CompileOutOfFuel
      | Fault f \<Rightarrow> CompileFault f
      | Ok _ s \<Rightarrow>
          if hadError s then
            (let (f, s1) = endCompiler s
             in Compiled None (cosmoM_unfreezeGC (cosmoV_pushValue CNil (state s1))))
          else
            (let resFunc = cfunction (compiler s);
                 s1 = s\<lparr>state := cosmoV_pushValue (CClosure resFunc) (state s)\<rparr>;
                 (f, s2) = endCompiler s1
             in Compiled (Some resFunc) (cosmoM_unfreezeGC (state s2))))"
section \<open>Concrete inputs\<close>

text \<open>Tokens, a VM state and parse states on which the theorems below are run.\<close>

definition tk :: "CTokenType \<Rightarrow> string \<Rightarrow> CToken" where
  "tk ty txt = \<lparr>tok_type = ty, tok_text = txt, tok_rest = [], tok_line = 1\<rparr>"

text \<open>A number token, with the source text that follows it.\<close>

definition num :: "string \<Rightarrow> string \<Rightarrow> CToken" where
  "num txt rest = \<lparr>tok_type = TOKEN_NUMBER, tok_text = txt, tok_rest = rest, tok_line = 1\<rparr>"

definition st0 :: CState where
  "st0 = \<lparr>stack = [], freezeGC = 0, objects = (\<lambda>_. newFunction), nobjects = 0\<rparr>"

text \<open>The parse state of \<^verbatim>\<open>cosmoP_compileString\<close> after its first \<^verbatim>\<open>advance\<close>.\<close>

definition startState :: "CToken list \<Rightarrow> CParseState" where
  "startState source = advance (initParseState (cosmoM_freezeGC st0) source ''main'')"

text \<open>A parse state whose chunk already holds \<open>n\<close> constants.\<close>

definition withConstants :: "nat \<Rightarrow> CParseState" where
  "withConstants n =
     updChunk (\<lambda>c. c\<lparr>constants := replicate n CNil\<rparr>) (startState [])"

text \<open>
  A compiler state that has captured 256 upvalues (slot \<open>i\<close> of the enclosing function
  for each \<open>i\<close>), and a VM state in which its function object says so.
\<close>

definition fullCompiler :: CCompilerState where
  "fullCompiler =
     (compiler (startState []))\<lparr>upvalues := (\<lambda>i. \<lparr>uv_index = word_of_int i, isLocal = True\<rparr>)\<rparr>"

definition fullState :: CState where
  "fullState =
     (state (startState []))\<lparr>objects := (objects (state (startState [])))
        (cfunction fullCompiler := newFunction\<lparr>upvals := 256\<rparr>)\<rparr>"

text \<open>What a compilation left in the function object at an address, and what it reported.\<close>

definition compiledCode :: "compiled \<Rightarrow> nat \<Rightarrow> INSTRUCTION list" where
  "compiledCode c a = (case c of Compiled f st \<Rightarrow> buf (chunk (objects st a)) | _ \<Rightarrow> [])"

definition compiledConstants :: "compiled \<Rightarrow> nat \<Rightarrow> CValue list" where
  "compiledConstants c a = (case c of Compiled f st \<Rightarrow> constants (chunk (objects st a)) | _ \<Rightarrow> [])"

definition reported :: "result \<Rightarrow> diagnostic list" where
  "reported r = (case r of Ok _ s \<Rightarrow> diagnostics s | _ \<Rightarrow> [])"

text \<open>The sources \<^verbatim>\<open>x++\<close> and \<^verbatim>\<open>++x\<close>.\<close>

definition src_postfix :: "CToken list" where
  "src_postfix = [tk TOKEN_IDENTIFIER ''x'', tk TOKEN_PLUS_PLUS ''++'']"

definition src_prefix :: "CToken list" where
  "src_prefix = [tk TOKEN_PLUS_PLUS ''++'', tk TOKEN_IDENTIFIER ''x'']"

text \<open>The sources \<^verbatim>\<open>var ;\<close> and \<^verbatim>\<open>var ; var ;\<close>: one and two statements that lack a name.\<close>

definition src_one_error :: "CToken list" where
  "src_one_error = [tk TOKEN_VAR ''var'', tk TOKEN_EOS '';'']"



section \<open>What a parse function leaves alone\<close>

text \<open>A function object whose bytecode ends with \<^verbatim>\<open>OP_NIL, OP_RETURN, 1\<close>.\<close>

definition terminated :: "CObjFunction \<Rightarrow> bool" where
  "terminated f \<longleftrightarrow> take 3 (rev (buf (chunk f))) = [U8 1, OP OP_RETURN, OP OP_NIL]"

text \<open>
  \<open>heapExt cur st st'\<close>: when \<open>cur\<close> is the address of an allocated function object of
  \<open>st\<close>, the heap \<open>st'\<close> has all the objects of \<open>st\<close>, the chunk of every one of them but
  \<open>cur\<close> is unchanged, and every object allocated since is \<open>terminated\<close>.
\<close>

definition heapExt :: "nat \<Rightarrow> CState \<Rightarrow> CState \<Rightarrow> bool" where
  "heapExt cur st st' \<longleftrightarrow>
     (cur < nobjects st \<longrightarrow>
        nobjects st \<le> nobjects st' \<and>
        (\<forall>a. a < nobjects st \<and> a \<noteq> cur \<longrightarrow> chunk (objects st' a) = chunk (objects st a)) \<and>
        (\<forall>a. nobjects st \<le> a \<and> a < nobjects st' \<longrightarrow> terminated (objects st' a)))"

text \<open>
  \<open>frame s s'\<close>: from \<open>s\<close> to \<open>s'\<close> the VM's value stack and freeze counter are unchanged,
  the current compiler state and the chain of enclosing ones belong to the same functions,
  an error already reported stays the only one reported, a diagnostic is added only
  together with the first setting of \<open>hadError\<close> and then it is a single one, \<open>panic\<close> is
  only ever set together with \<open>hadError\<close>, and the heap is extended as \<open>heapExt\<close> says,
  only the current function being written to.
\<close>

definition frame :: "CParseState \<Rightarrow> CParseState \<Rightarrow> bool" where
  "frame s s' \<longleftrightarrow>
     stack (state s') = stack (state s) \<and>
     freezeGC (state s') = freezeGC (state s) \<and>
     cfunction (compiler s') = cfunction (compiler s) \<and>
     map cfunction (enclosing s') = map cfunction (enclosing s) \<and>
     pmodule s' = pmodule s \<and>
     (hadError s \<longrightarrow> hadError s' \<and> diagnostics s' = diagnostics s) \<and>
     (\<not> hadError s' \<longrightarrow> diagnostics s' = diagnostics s) \<and>
     (hadError s' \<and> \<not> hadError s \<longrightarrow>
        diagnostics s' \<noteq> [] \<and> butlast (diagnostics s') = diagnostics s) \<and>
     ((panic s \<longrightarrow> hadError s) \<longrightarrow> (panic s' \<longrightarrow> hadError s')) \<and>
     heapExt (cfunction (compiler s)) (state s) (state s')"

text \<open>
  \<open>post s m\<close>: if the result \<open>m\<close> is a normal return, its state is in \<open>frame\<close> with \<open>s\<close>;
  if it is a fault, it is one of the two faults of the C code.
\<close>

definition post :: "CParseState \<Rightarrow> result \<Rightarrow> bool" where
  "post s m =
     (case m of Ok r s' \<Rightarrow> frame s s' | Fault f \<Rightarrow> f \<noteq> GCNotFrozen | OutOfFuel \<Rightarrow> True)"

definition ok_rec :: "recursion \<Rightarrow> bool" where
  "ok_rec rec \<longleftrightarrow> (\<forall>c s. post s (rec c s))"

text \<open>
  The sources \<^verbatim>\<open>f(1)\<close>, \<^verbatim>\<open>var a = 1\<close>, \<^verbatim>\<open>1++\<close> and \<^verbatim>\<open>proto A x\<close>.
\<close>

definition src_call :: "CToken list" where
  "src_call = [tk TOKEN_IDENTIFIER ''f'', tk TOKEN_LEFT_PAREN ''('', num ''1'' '')'',
               tk TOKEN_RIGHT_PAREN '')'']"


definition src_number_increment :: "CToken list" where
  "src_number_increment = [num ''1'' ''++'', tk TOKEN_PLUS_PLUS ''++'']"

definition src_proto :: "CToken list" where
  "src_proto = [tk TOKEN_PROTO ''proto'', tk TOKEN_IDENTIFIER ''A'', tk TOKEN_IDENTIFIER ''x'']"


text \<open>The source \<^verbatim>\<open>function f() end\<close>.\<close>

definition src_function :: "CToken list" where
  "src_function = [tk TOKEN_FUNCTION ''function'', tk TOKEN_IDENTIFIER ''f'',
                   tk TOKEN_LEFT_PAREN ''('', tk TOKEN_RIGHT_PAREN '')'', tk TOKEN_END ''end'']"

section \<open>Watching the freeze counter\<close>



definition same :: "CParseState \<Rightarrow> result \<Rightarrow> result \<Rightarrow> bool" where
  "same s m1 m2 \<longleftrightarrow> m1 = m2 \<and> post s m2"

text \<open>The source \<^verbatim>\<open>f()()\<close>.\<close>

definition src_callcall :: "CToken list" where
  "src_callcall = [tk TOKEN_IDENTIFIER ''f'', tk TOKEN_LEFT_PAREN ''('', tk TOKEN_RIGHT_PAREN '')'',
                   tk TOKEN_LEFT_PAREN ''('', tk TOKEN_RIGHT_PAREN '')'']"


section \<open>Basic facts about the front end and the chunk writers\<close>

lemmas PREC_defs = PREC_NONE_def PREC_ASSIGNMENT_def PREC_CONCAT_def PREC_OR_def PREC_AND_def
  PREC_EQUALITY_def PREC_COMPARISON_def PREC_TERM_def PREC_FACTOR_def PREC_UNARY_def
  PREC_CALL_def PREC_PRIMARY_def

lemma match_check_advance:
  "match ty s = (check ty s, if check ty s then advance s else s)"
  by (simp add: match_def)

lemma andThen_simps [simp]:
  "andThen OutOfFuel f = OutOfFuel"
  "andThen (Fault e) f = Fault e"
  "andThen (Ok r s) f = f r s"
  by (simp_all add: andThen_def)

lemma andThen_Ok_iff:
  "andThen m f = Ok r s' \<longleftrightarrow> (\<exists>r1 s1. m = Ok r1 s1 \<and> f r1 s1 = Ok r s')"
  by (cases m) simp_all

lemma run_numeral: "run (numeral k) c s = step (run (pred_numeral k)) c s"
  by (simp add: numeral_eq_Suc)

text \<open>
  Running the model on a concrete input is rewriting with the definitions of the model.
\<close>

lemmas model_defs =
  PREC_NONE_def PREC_ASSIGNMENT_def PREC_CONCAT_def PREC_OR_def PREC_AND_def PREC_EQUALITY_def
  PREC_COMPARISON_def PREC_TERM_def PREC_FACTOR_def PREC_UNARY_def PREC_CALL_def
  PREC_PRIMARY_def mkRule_def getRule_def andThen_def eofToken_def cosmoL_scanToken_def
  errorAt_def errorAtCurrent_def error_def advance_def check_def consume_def
  identifiersEqual_def valuePushed_def valuePopped_def blockFollow_def getFunction_def
  updFunction_def getChunk_def updChunk_def count_def writeu8Chunk_def writeu16Chunk_def
  addConstant_def makeConstant_def writeu8_def writeu16_def writeConstant_def writeJmp_def
  writePop_def writeJmpBack_def patchJmp_def identifierConstant_def addLocal_def addUpvalue_def
  getLocal_def markInitialized_def alignStack_def declareLocal_def parseVariable_def
  defineVariable_def popLocals_def beginScope_def endScope_def startLoop_def endLoop_def
  breakStatement_def continueStatement_def synchronize_def UNNAMEDCHUNK_def newFunction_def
  noName_def initCompilerState_def initParseState_def endCompiler_def number_def string_p_def
  literal_def writeLine_def unary_def binaryOp_def binary_def group_def etterOP_def
  resolveVariable_def writeIncArg_def namedVariable_def and_p_def or_p_def variable_def
  concatLoop_def concat_p_def parseArgumentsLoop_def parseArguments_def call_p_def
  objectLoop_def object_def dot_def index_p_def walkIndexes_end_def walkIndexes_iter_def walkIndexesLoop_def
  walkIndexes_def increment_def preincrement_def predecrement_def anonFunction_def
  callParseFunc_def infixLoop_def parsePrecedence_def expression_def blockLoop_def block_def
  varDeclValues_def varDeclaration_def ifBodyLoop_def ifStatement_def whileStatement_def
  functionParams_def function_p_def functionDeclaration_def localFunction_def protoLoop_def
  proto_p_def returnLoop_def returnStatement_def forEachVars_def forEachLoop_def forLoop_def
  statementBody_def expressionStatement_def statement_def declaration_p_def compileLoop_def step_def
  cosmoM_freezeGC_def cosmoM_unfreezeGC_def cosmoV_pushValue_def compileString_with_def compileString_parse_def
  cosmoP_compileString_def

lemmas run_defs = model_defs run_numeral Let_def split_def popLocals_loop.simps
  synchronize_loop.simps

section \<open>Error reporting and recovery\<close>


lemma errorAt_first:
  "\<not> hadError s \<Longrightarrow>
     hadError (errorAt token msg s) \<and> panic (errorAt token msg s) \<and>
     length (diagnostics (errorAt token msg s)) = Suc (length (diagnostics s))"
  by (simp add: errorAt_def)






lemma advance_state [simp]: "state (advance s) = state s"
  by (simp add: advance_def Let_def split_def errorAtCurrent_def errorAt_def)

lemma advance_compiler [simp]: "compiler (advance s) = compiler s"
  by (simp add: advance_def Let_def split_def errorAtCurrent_def errorAt_def)
section \<open>The constant pool limit\<close>

lemma getChunk_updChunk [simp]: "getChunk (updChunk g s) = g (getChunk s)"
  by (simp add: updChunk_def updFunction_def getChunk_def getFunction_def)

lemma updChunk_fields [simp]:
  "hadError (updChunk g s) = hadError s" "panic (updChunk g s) = panic s"
  "diagnostics (updChunk g s) = diagnostics s" "compiler (updChunk g s) = compiler s"
  "enclosing (updChunk g s) = enclosing s" "current (updChunk g s) = current s"
  "previous (updChunk g s) = previous s" "lex (updChunk g s) = lex s"
  "pmodule (updChunk g s) = pmodule s"
  by (simp_all add: updChunk_def updFunction_def)

lemma makeConstant_eq:
  "makeConstant val s =
     (if int (length (constants (getChunk s))) > 65535
      then (0, error ''UInt overflow! Too many constants in one chunk!''
                 (updChunk (\<lambda>c. c\<lparr>constants := constants c @ [val]\<rparr>) s))
      else (word_of_int (int (length (constants (getChunk s)))),
            updChunk (\<lambda>c. c\<lparr>constants := constants c @ [val]\<rparr>) s))"
  by (simp add: makeConstant_def addConstant_def Let_def updChunk_def updFunction_def
        getChunk_def getFunction_def)

lemma withConstants_length [simp]: "length (constants (getChunk (withConstants n))) = n"
  by (simp add: withConstants_def)

text \<open>
  C8.  \<open>makeConstant\<close> returns the index of the added constant as a 16-bit value while that
  index is at most 65535: the returned value read back is the index, the constant is in
  the pool at that index, and no error is raised.  When the index would exceed 65535 (the
  chunk already holds 65536 constants) it returns index 0 and raises a compile error, which is
  reported with this message unless an earlier error was already reported.
\<close>

theorem makeConstant_limit:
  "(length (constants (getChunk s)) \<le> 65535 \<longrightarrow>
      uint (fst (makeConstant val s)) = int (length (constants (getChunk s))) \<and>
      constants (getChunk (snd (makeConstant val s))) ! unat (fst (makeConstant val s)) = val \<and>
      hadError (snd (makeConstant val s)) = hadError s \<and>
      diagnostics (snd (makeConstant val s)) = diagnostics s) \<and>
   (length (constants (getChunk s)) > 65535 \<longrightarrow>
      fst (makeConstant val s) = 0 \<and>
      hadError (snd (makeConstant val s)) \<and>
      (\<not> hadError s \<longrightarrow>
         diagnostics (snd (makeConstant val s)) =
           diagnostics s @ [(tok_line (previous s),
              (if tok_type (previous s) = TOKEN_EOF then '' at end''
               else if tok_type (previous s) \<noteq> TOKEN_ERROR
               then '' at '' @ [CHR 0x27] @ tok_text (previous s) @ [CHR 0x27] else []),
              ''UInt overflow! Too many constants in one chunk!'')]))"
  apply (simp add: makeConstant_eq error_def errorAt_def)
  apply (intro impI conjI)
  subgoal by (simp add: unsigned_of_nat take_bit_nat_eq_self)
  subgoal by (simp add: unsigned_of_nat take_bit_nat_eq_self)
  done

theorem makeConstant_limit_witness:
  "uint (fst (makeConstant (CString ''x'') (withConstants 65535))) = 65535 \<and>
   fst (makeConstant (CString ''x'') (withConstants 65536)) = 0 \<and>
   hadError (snd (makeConstant (CString ''x'') (withConstants 65536)))"
  using makeConstant_limit [of "withConstants 65535" "CString ''x''"]
        makeConstant_limit [of "withConstants 65536" "CString ''x''"]
  by simp

section \<open>The upvalue array\<close>

lemma findUpvalue_None:
  "(\<And>j. i \<le> j \<Longrightarrow> j < i + int n \<Longrightarrow>
         \<not> (uv_index (ups j) = indx \<and> isLocal (ups j) = isLoc)) \<Longrightarrow>
   findUpvalue ups indx isLoc i n = None"
proof (induction n arbitrary: i)
  case 0
  then show ?case by simp
next
  case (Suc n)
  have "\<not> (uv_index (ups i) = indx \<and> isLocal (ups i) = isLoc)"
    using Suc.prems [of i] by simp
  moreover have "findUpvalue ups indx isLoc (i + 1) n = None"
    by (rule Suc.IH) (use Suc.prems in auto)
  ultimately show ?case by simp
qed

lemma findUpvalue_Some:
  "findUpvalue ups indx isLoc i n = Some k \<Longrightarrow>
     i \<le> k \<and> k < i + int n \<and> uv_index (ups k) = indx \<and> isLocal (ups k) = isLoc"
proof (induction n arbitrary: i)
  case 0
  then show ?case by simp
next
  case (Suc n)
  show ?case
  proof (cases "uv_index (ups i) = indx \<and> isLocal (ups i) = isLoc")
    case True
    then show ?thesis using Suc.prems by auto
  next
    case False
    then have "findUpvalue ups indx isLoc (i + 1) n = Some k" using Suc.prems by auto
    from Suc.IH [OF this] show ?thesis by auto
  qed
qed

lemma fullCompiler_cfunction [simp]: "cfunction fullCompiler = 0"
  by (simp add: fullCompiler_def startState_def initParseState_def initCompilerState_def
        advance_def cosmoL_scanToken_def cosmoM_freezeGC_def st0_def Let_def eofToken_def)

lemma addUpvalue_no_room:
  assumes "upvals (objects st (cfunction ccstate)) = 256"
    and "\<And>j. 0 \<le> j \<Longrightarrow> j < 256 \<Longrightarrow>
           \<not> (uv_index (upvalues ccstate j) = indx \<and> isLocal (upvalues ccstate j) = isLoc)"
  shows "addUpvalue ccstate indx isLoc st = Inl ArrayOutOfBounds"
proof -
  have "findUpvalue (upvalues ccstate) indx isLoc 0 256 = None"
    by (rule findUpvalue_None) (use assms(2) in auto)
  then show ?thesis using assms(1) by (simp add: addUpvalue_def Let_def)
qed

text \<open>
  C3.  \<open>addUpvalue\<close> has no limit check.  In a function that has already captured 256
  upvalues, capturing one more that is not yet among them writes entry 256 of the
  256-entry array; no compile error is raised on the way (\<open>addUpvalue\<close> does not even see the
  parse state that holds \<open>hadError\<close>).
\<close>

theorem addUpvalue_overflow:
  "addUpvalue fullCompiler 0 False fullState = Inl ArrayOutOfBounds"
  by (rule addUpvalue_no_room) (simp_all add: fullState_def fullCompiler_def)
section \<open>Every parse function keeps the frame\<close>

lemma heapExt_refl [simp]: "heapExt c st st"
  by (auto simp: heapExt_def)

lemma heapExt_trans:
  assumes "heapExt c st st1" "heapExt c st1 st2"
  shows "heapExt c st st2"
proof (unfold heapExt_def, intro impI)
  assume v: "c < nobjects st"
  from assms(1) v have 1: "nobjects st \<le> nobjects st1"
    "\<And>a. a < nobjects st \<Longrightarrow> a \<noteq> c \<Longrightarrow> chunk (objects st1 a) = chunk (objects st a)"
    "\<And>a. nobjects st \<le> a \<Longrightarrow> a < nobjects st1 \<Longrightarrow> terminated (objects st1 a)"
    by (auto simp: heapExt_def)
  from 1(1) v have v1: "c < nobjects st1" by simp
  from assms(2) v1 have 2: "nobjects st1 \<le> nobjects st2"
    "\<And>a. a < nobjects st1 \<Longrightarrow> a \<noteq> c \<Longrightarrow> chunk (objects st2 a) = chunk (objects st1 a)"
    "\<And>a. nobjects st1 \<le> a \<Longrightarrow> a < nobjects st2 \<Longrightarrow> terminated (objects st2 a)"
    by (auto simp: heapExt_def)
  show "nobjects st \<le> nobjects st2 \<and>
        (\<forall>a. a < nobjects st \<and> a \<noteq> c \<longrightarrow> chunk (objects st2 a) = chunk (objects st a)) \<and>
        (\<forall>a. nobjects st \<le> a \<and> a < nobjects st2 \<longrightarrow> terminated (objects st2 a))"
  proof (intro conjI allI impI)
    show "nobjects st \<le> nobjects st2" using 1(1) 2(1) by simp
  next
    fix a assume a: "a < nobjects st \<and> a \<noteq> c"
    then have "a < nobjects st1" using 1(1) by simp
    with a show "chunk (objects st2 a) = chunk (objects st a)" using 1(2) 2(2) by simp
  next
    fix a assume a: "nobjects st \<le> a \<and> a < nobjects st2"
    show "terminated (objects st2 a)"
    proof (cases "a < nobjects st1")
      case True
      with a have t: "terminated (objects st1 a)" using 1(3) by simp
      from a v have "a \<noteq> c" by simp
      with True have "chunk (objects st2 a) = chunk (objects st1 a)" using 2(2) by simp
      with t show ?thesis by (simp add: terminated_def)
    next
      case False
      with a show ?thesis using 2(3) by simp
    qed
  qed
qed

lemma heapExt_write:
  "heapExt c st st1 \<Longrightarrow> heapExt c st (st1\<lparr>objects := (objects st1)(c := f)\<rparr>)"
  by (simp add: heapExt_def)

lemma heapExt_same_chunks:
  "heapExt c st st1 \<Longrightarrow> nobjects st2 = nobjects st1 \<Longrightarrow>
   (\<And>a. chunk (objects st2 a) = chunk (objects st1 a)) \<Longrightarrow> heapExt c st st2"
  by (simp add: heapExt_def terminated_def)

lemma frame_refl [simp]: "frame s s" by (simp add: frame_def)

lemma frame_trans:
  assumes "frame s t" "frame t u"
  shows "frame s u"
proof -
  note a = assms(1) [unfolded frame_def] and b = assms(2) [unfolded frame_def]
  have h: "heapExt (cfunction (compiler s)) (state s) (state u)"
    using a b by (auto intro: heapExt_trans)
  have d1: "\<not> hadError u \<longrightarrow> diagnostics u = diagnostics s"
    using a b by metis
  have d2: "hadError u \<and> \<not> hadError s \<longrightarrow>
            diagnostics u \<noteq> [] \<and> butlast (diagnostics u) = diagnostics s"
    using a b by metis
  have r: "stack (state u) = stack (state s)" "freezeGC (state u) = freezeGC (state s)"
    "cfunction (compiler u) = cfunction (compiler s)"
    "map cfunction (enclosing u) = map cfunction (enclosing s)" "pmodule u = pmodule s"
    "hadError s \<longrightarrow> hadError u \<and> diagnostics u = diagnostics s"
    "(panic s \<longrightarrow> hadError s) \<longrightarrow> (panic u \<longrightarrow> hadError u)"
    using a b by simp_all
  show ?thesis unfolding frame_def using r d1 d2 h by blast
qed

text \<open>
  A state that differs from one in the frame only in what the frame does not look at, or in
  a heap that still extends the first one, is in the frame too.
\<close>

lemma frame_stateI:
  assumes f: "frame s t"
    and e: "stack (state t') = stack (state t)" "freezeGC (state t') = freezeGC (state t)"
      "cfunction (compiler t') = cfunction (compiler t)"
      "map cfunction (enclosing t') = map cfunction (enclosing t)" "pmodule t' = pmodule t"
      "hadError t' = hadError t" "diagnostics t' = diagnostics t"
    and p: "panic t' \<longrightarrow> panic t"
    and h: "heapExt (cfunction (compiler s)) (state s) (state t')"
  shows "frame s t'"
  unfolding frame_def e using f [unfolded frame_def] p h by blast

lemma frame_eqI:
  assumes f: "frame s t"
    and e: "state t' = state t" "cfunction (compiler t') = cfunction (compiler t)"
      "map cfunction (enclosing t') = map cfunction (enclosing t)" "pmodule t' = pmodule t"
      "hadError t' = hadError t" "diagnostics t' = diagnostics t"
    and p: "panic t' \<longrightarrow> panic t"
  shows "frame s t'"
proof (rule frame_stateI [OF f _ _ e(2-6) p])
  show "stack (state t') = stack (state t)" "freezeGC (state t') = freezeGC (state t)"
    by (simp_all add: e(1))
  show "heapExt (cfunction (compiler s)) (state s) (state t')"
    using f by (simp add: e(1) frame_def)
qed

lemma post_simps [simp]:
  "post s OutOfFuel" "post s (Fault e) = (e \<noteq> GCNotFrozen)" "post s (Ok r s') = frame s s'"
  by (simp_all add: post_def)

lemma post_Fault: "e \<noteq> GCNotFrozen \<Longrightarrow> post s (Fault e)" by simp

lemma post_Ok: "frame s s' \<Longrightarrow> post s (Ok r s')" by simp

lemma post_andThen:
  "post s m \<Longrightarrow> (\<And>r s1. frame s s1 \<Longrightarrow> post s (k r s1)) \<Longrightarrow> post s (andThen m k)"
  by (cases m) simp_all

lemma post_rebase:
  "post s0 m \<Longrightarrow> (\<And>r t. frame s0 t \<Longrightarrow> post s (k r t)) \<Longrightarrow> post s (andThen m k)"
  by (cases m) simp_all

lemma post_if: "(c \<Longrightarrow> post s a) \<Longrightarrow> (\<not> c \<Longrightarrow> post s b) \<Longrightarrow> post s (if c then a else b)"
  by simp

lemma post_Let: "post s (f t) \<Longrightarrow> post s (Let t f)" by simp

lemma post_case_prod: "post s (f (fst p) (snd p)) \<Longrightarrow> post s (case p of (a, b) \<Rightarrow> f a b)"
  by (simp add: split_def)

lemma post_case_sum:
  "(\<And>x. p = Inl x \<Longrightarrow> post s (f x)) \<Longrightarrow> (\<And>y. p = Inr y \<Longrightarrow> post s (g y)) \<Longrightarrow>
   post s (case p of Inl x \<Rightarrow> f x | Inr y \<Rightarrow> g y)"
  by (cases p) simp_all

lemma post_case_option:
  "(p = None \<Longrightarrow> post s a) \<Longrightarrow> (\<And>y. p = Some y \<Longrightarrow> post s (g y)) \<Longrightarrow>
   post s (case p of None \<Rightarrow> a | Some y \<Rightarrow> g y)"
  by (cases p) simp_all

lemma post_rec: "ok_rec rec \<Longrightarrow> frame s t \<Longrightarrow> post s (rec c t)"
  unfolding ok_rec_def post_def by (auto split: result.splits intro: frame_trans)

lemma frame_if: "(c \<Longrightarrow> frame s a) \<Longrightarrow> (\<not> c \<Longrightarrow> frame s b) \<Longrightarrow> frame s (if c then a else b)"
  by simp

lemma frame_Let: "frame s (f t) \<Longrightarrow> frame s (Let t f)" by simp

lemma frame_case_prod: "frame s (f (fst p) (snd p)) \<Longrightarrow> frame s (case p of (a, b) \<Rightarrow> f a b)"
  by (simp add: split_def)

lemmas post_intros = post_Ok post_Fault post_andThen post_if post_Let post_case_prod post_case_sum
  post_case_option frame_if frame_Let frame_case_prod

lemma frame_errorAt: "frame s t \<Longrightarrow> frame s (errorAt tok msg t)"
  by (auto simp: frame_def errorAt_def)
lemma frame_errorAtCurrent: "frame s t \<Longrightarrow> frame s (errorAtCurrent msg t)"
  by (simp add: errorAtCurrent_def frame_errorAt)
lemma frame_error: "frame s t \<Longrightarrow> frame s (error msg t)"
  by (simp add: error_def frame_errorAt)
lemma frame_advance: "frame s t \<Longrightarrow> frame s (advance t)"
  by (auto simp: advance_def Let_def split_def intro!: frame_errorAtCurrent) (auto simp: frame_def)
lemma frame_consume: "frame s t \<Longrightarrow> frame s (consume ty msg t)"
  by (simp add: consume_def frame_advance frame_errorAtCurrent)
lemma frame_valuePushed: "frame s t \<Longrightarrow> frame s (valuePushed n t)"
  by (erule frame_eqI) (simp_all add: valuePushed_def)
lemma frame_valuePopped: "frame s t \<Longrightarrow> frame s (valuePopped n t)"
  by (erule frame_eqI) (simp_all add: valuePopped_def)
lemma frame_updFunction: "frame s t \<Longrightarrow> frame s (updFunction g t)"
proof -
  assume f: "frame s t"
  then have "heapExt (cfunction (compiler s)) (state s) (state t)"
    and "cfunction (compiler t) = cfunction (compiler s)"
    by (simp_all add: frame_def)
  then have h: "heapExt (cfunction (compiler s)) (state s) (state (updFunction g t))"
    by (simp add: updFunction_def heapExt_write)
  show ?thesis
    by (rule frame_stateI [OF f _ _ _ _ _ _ _ _ h]) (simp_all add: updFunction_def)
qed
lemma frame_updChunk: "frame s t \<Longrightarrow> frame s (updChunk g t)"
  by (simp add: updChunk_def frame_updFunction)
lemma frame_makeConstant: "frame s t \<Longrightarrow> frame s (snd (makeConstant v t))"
  by (simp add: makeConstant_eq frame_error frame_updChunk)
lemma frame_writeu8: "frame s t \<Longrightarrow> frame s (writeu8 i t)"
  by (simp add: writeu8_def frame_updChunk)
lemma frame_writeu16: "frame s t \<Longrightarrow> frame s (writeu16 i t)"
  by (simp add: writeu16_def frame_updChunk)
lemma frame_writeLine: "frame s t \<Longrightarrow> frame s (writeLine i ln t)"
  by (simp add: writeLine_def frame_updChunk)
lemma frame_writeConstant: "frame s t \<Longrightarrow> frame s (writeConstant v t)"
  by (simp add: writeConstant_def Let_def split_def frame_valuePushed frame_writeu16 frame_makeConstant frame_writeu8)
lemma frame_writeJmp: "frame s t \<Longrightarrow> frame s (snd (writeJmp i t))"
  by (simp add: writeJmp_def Let_def frame_writeu16 frame_writeu8)
lemma frame_writePop: "frame s t \<Longrightarrow> frame s (writePop n t)"
  by (simp add: writePop_def frame_writeu8)
lemma frame_writeJmpBack: "frame s t \<Longrightarrow> frame s (writeJmpBack l t)"
  by (simp add: writeJmpBack_def Let_def frame_writeu16 frame_writeu8 frame_error)
lemma frame_patchJmp: "frame s t \<Longrightarrow> frame s (patchJmp i t)"
  by (simp add: patchJmp_def Let_def frame_updChunk frame_error)
lemma frame_identifierConstant: "frame s t \<Longrightarrow> frame s (snd (identifierConstant n t))"
  by (simp add: identifierConstant_def frame_makeConstant)
lemma frame_set_compiler:
  "frame s u \<Longrightarrow> cfunction c = cfunction (compiler u) \<Longrightarrow> frame s (u\<lparr>compiler := c\<rparr>)"
  by (erule frame_eqI) simp_all
lemma frame_addLocal: "frame s t \<Longrightarrow> frame s (addLocal n t)"
  by (auto simp: addLocal_def frame_error Let_def intro!: frame_set_compiler)
lemma frame_markInitialized: "frame s t \<Longrightarrow> frame s (markInitialized l t)"
  by (simp add: markInitialized_def frame_set_compiler)
lemma frame_alignStack: "frame s t \<Longrightarrow> frame s (alignStack a t)"
proof -
  have *: "\<And>u. frame s u \<Longrightarrow> frame s (u\<lparr>compiler := (compiler u)\<lparr>pushedValues := a\<rparr>\<rparr>)"
    by (simp add: frame_set_compiler)
  assume "frame s t"
  then show ?thesis
    by (auto simp: alignStack_def Let_def intro!: * frame_writePop frame_error)
qed


lemma frame_declareLocal_loop: "frame s t \<Longrightarrow> frame s (declareLocal_loop name i n t)"
  by (induction n arbitrary: i t) (auto simp: Let_def frame_error)
lemma frame_declareLocal: "frame s t \<Longrightarrow> frame s (declareLocal f t)"
  by (simp add: declareLocal_def frame_addLocal frame_declareLocal_loop)
lemma frame_parseVariable: "frame s t \<Longrightarrow> frame s (snd (parseVariable msg f t))"
  by (simp add: parseVariable_def Let_def frame_declareLocal frame_consume frame_identifierConstant)
lemma frame_defineVariable: "frame s t \<Longrightarrow> frame s (defineVariable g f t)"
  by (simp add: defineVariable_def frame_valuePopped frame_markInitialized frame_writeu16 frame_writeu8)

lemma frame_localCount: "frame s t \<Longrightarrow> frame s (t\<lparr>compiler := (compiler t)\<lparr>localCount := n\<rparr>\<rparr>)"
  by (simp add: frame_set_compiler)

lemma compiler_writeu8 [simp]: "compiler (writeu8 i s) = compiler s"
  by (simp add: writeu8_def)

lemma compiler_writePop [simp]: "compiler (writePop n s) = compiler s"
  by (simp add: writePop_def)

lemma popLocals_loop_stop:
  "\<not> (localCount (compiler t) > 0 \<and>
       depth (locals (compiler t) (localCount (compiler t) - 1)) > toScope) \<Longrightarrow>
   popLocals_loop toScope n t = (t, n)"
  by (subst popLocals_loop.simps) auto

lemma popLocals_loop_step:
  "localCount (compiler t) > 0 \<Longrightarrow>
   depth (locals (compiler t) (localCount (compiler t) - 1)) > toScope \<Longrightarrow>
   popLocals_loop toScope n t =
     popLocals_loop toScope
       (if isCaptured (locals (compiler t) (localCount (compiler t) - 1)) then 0 else n + 1)
       ((if isCaptured (locals (compiler t) (localCount (compiler t) - 1))
         then writeu8 (OP OP_CLOSE) (if n > 0 then writePop n t else t) else t)
        \<lparr>compiler := (compiler t)\<lparr>localCount := localCount (compiler t) - 1\<rparr>\<rparr>)"
  by (subst popLocals_loop.simps) (simp add: Let_def)

lemma frame_popLocals_loop: "frame s t \<Longrightarrow> frame s (fst (popLocals_loop toScope n t))"
proof (induction k \<equiv> "nat (localCount (compiler t))" arbitrary: t n rule: less_induct)
  case less
  show ?case
  proof (cases "localCount (compiler t) > 0 \<and>
         depth (locals (compiler t) (localCount (compiler t) - 1)) > toScope")
    case True
    let ?t' = "(if isCaptured (locals (compiler t) (localCount (compiler t) - 1))
         then writeu8 (OP OP_CLOSE) (if n > 0 then writePop n t else t) else t)
        \<lparr>compiler := (compiler t)\<lparr>localCount := localCount (compiler t) - 1\<rparr>\<rparr>"
    have fr: "frame s ?t'"
      by (rule frame_set_compiler) (auto intro!: frame_writeu8 frame_writePop less.prems)
    have "nat (localCount (compiler ?t')) < nat (localCount (compiler t))"
      using True by simp
    from less.hyps [OF this fr] show ?thesis
      using True by (simp add: popLocals_loop_step)
  next
    case False
    then show ?thesis using less.prems by (simp add: popLocals_loop_stop)
  qed
qed

lemma frame_popLocals: "frame s t \<Longrightarrow> frame s (popLocals toScope t)"
  by (simp add: popLocals_def Let_def split_def frame_writePop frame_popLocals_loop)

lemma frame_beginScope: "frame s t \<Longrightarrow> frame s (beginScope t)"
  by (simp add: beginScope_def frame_set_compiler)

lemma frame_scopeDepth: "frame s t \<Longrightarrow> frame s (t\<lparr>compiler := (compiler t)\<lparr>scopeDepth := n\<rparr>\<rparr>)"
  by (simp add: frame_set_compiler)

lemma frame_endScope: "frame s t \<Longrightarrow> frame s (endScope t)"
  by (simp add: endScope_def Let_def frame_popLocals frame_scopeDepth)

lemma frame_loop: "frame s t \<Longrightarrow> frame s (t\<lparr>compiler := (compiler t)\<lparr>loop := l\<rparr>\<rparr>)"
  by (simp add: frame_set_compiler)

lemma frame_startLoop: "frame s t \<Longrightarrow> frame s (startLoop t)"
  by (simp add: startLoop_def frame_loop)

lemma frame_fold_patchJmp: "frame s t \<Longrightarrow> frame s (fold patchJmp js t)"
  by (induction js arbitrary: t) (simp_all add: frame_patchJmp)

lemma frame_endLoop: "frame s t \<Longrightarrow> frame s (endLoop t)"
  by (simp add: endLoop_def Let_def frame_loop frame_fold_patchJmp)

lemma frame_breakStatement: "frame s t \<Longrightarrow> frame s (breakStatement t)"
  by (simp add: breakStatement_def Let_def split_def frame_error frame_loop frame_writeJmp
        frame_localCount frame_popLocals)

lemma frame_continueStatement: "frame s t \<Longrightarrow> frame s (continueStatement t)"
  by (simp add: continueStatement_def Let_def frame_error frame_writeJmpBack
        frame_localCount frame_popLocals)

lemma frame_synchronize_loop: "frame s t \<Longrightarrow> frame s (synchronize_loop t)"
proof (induction t rule: synchronize_loop.induct)
  case (1 t)
  show ?case
  proof (cases "tok_type (current t) \<noteq> TOKEN_EOF \<and> tok_type (previous t) \<noteq> TOKEN_EOS")
    case True
    then have "synchronize_loop t = synchronize_loop (advance t)"
      by (subst synchronize_loop.simps) simp
    then show ?thesis using "1.IH" True "1.prems" by (simp add: frame_advance)
  next
    case False
    then have "synchronize_loop t = t"
      by (subst synchronize_loop.simps) auto
    then show ?thesis using "1.prems" by simp
  qed
qed

lemma frame_synchronize: "frame s t \<Longrightarrow> frame s (synchronize t)"
proof -
  assume "frame s t"
  then have "frame s (t\<lparr>panic := False\<rparr>)" by (rule frame_eqI) simp_all
  then show ?thesis by (simp add: synchronize_def frame_synchronize_loop)
qed

lemma frame_number: "frame s t \<Longrightarrow> frame s (number t)"
  by (simp add: number_def frame_writeConstant)
lemma frame_string_p: "frame s t \<Longrightarrow> frame s (string_p t)"
  by (simp add: string_p_def frame_writeConstant)
lemma frame_literal: "frame s t \<Longrightarrow> frame s (literal t)"
  by (simp add: literal_def frame_valuePushed frame_writeu8)
lemma frame_binaryOp: "frame s t \<Longrightarrow> frame s (binaryOp ty ln t)"
  by (simp add: binaryOp_def frame_writeLine frame_error)
lemma frame_etterOP: "frame s t \<Longrightarrow> frame s (etterOP op arg t)"
  by (simp add: etterOP_def Let_def frame_writeu8 frame_writeu16)
lemma frame_writeIncArg: "frame s t \<Longrightarrow> frame s (writeIncArg op arg t)"
  by (simp add: writeIncArg_def frame_writeu8 frame_writeu16)
lemma frame_walkIndexes_end: "frame s t \<Longrightarrow> frame s (walkIndexes_end i ty v t)"
  by (simp add: walkIndexes_end_def frame_writeu8 frame_writeu16 frame_valuePopped)
lemma frame_padNil: "frame s t \<Longrightarrow> frame s (padNil n t)"
  by (induction n arbitrary: t) (simp_all add: frame_writeu8 frame_valuePushed)
lemma frame_writeUpvalues: "frame s t \<Longrightarrow> frame s (writeUpvalues ups i n t)"
  by (induction n arbitrary: i t) (simp_all add: frame_writeu8)

lemma frame_compiler_fields:
  "frame s t \<Longrightarrow> frame s (t\<lparr>compiler := (compiler t)\<lparr>expectedValues := n\<rparr>\<rparr>)"
  "frame s t \<Longrightarrow> frame s (t\<lparr>compiler := (compiler t)\<lparr>locals := ls, localCount := n\<rparr>\<rparr>)"
  by (simp_all add: frame_set_compiler)

lemma addUpvalue_frame:
  "addUpvalue c indx isLoc st = Inr (i, c', st') \<Longrightarrow>
     cfunction c' = cfunction c \<and> stack st' = stack st \<and> freezeGC st' = freezeGC st \<and>
     nobjects st' = nobjects st \<and> (\<forall>a. chunk (objects st' a) = chunk (objects st a))"
  by (auto simp: addUpvalue_def Let_def split: option.splits if_splits)

lemma getUpvalue_frame:
  "getUpvalue c es name st = Inr (u, c', es', st') \<Longrightarrow>
     cfunction c' = cfunction c \<and> map cfunction es' = map cfunction es \<and>
     stack st' = stack st \<and> freezeGC st' = freezeGC st \<and>
     nobjects st' = nobjects st \<and> (\<forall>a. chunk (objects st' a) = chunk (objects st a))"
proof (induction c es name st arbitrary: u c' es' st' rule: getUpvalue.induct)
  case (1 ccstate name st)
  then show ?case by simp
next
  case (2 ccstate e es name st)
  show ?case
  proof (cases "getLocal e name \<noteq> -1")
    case True
    then show ?thesis using "2.prems"
      by (auto simp: Let_def split: sum.splits dest!: addUpvalue_frame)
  next
    case False
    then obtain upval e1 es1 st1 where g: "getUpvalue e es name st = Inr (upval, e1, es1, st1)"
      using "2.prems" by (auto simp: Let_def split: sum.splits)
    from "2.IH" [OF refl _ g] False
    have ih: "cfunction e1 = cfunction e \<and> map cfunction es1 = map cfunction es \<and>
              stack st1 = stack st \<and> freezeGC st1 = freezeGC st \<and>
              nobjects st1 = nobjects st \<and> (\<forall>a. chunk (objects st1 a) = chunk (objects st a))"
      by simp
    show ?thesis using "2.prems" False g ih
      by (auto simp: Let_def split: sum.splits if_splits dest!: addUpvalue_frame)
  qed
qed

lemma addUpvalue_fault: "addUpvalue c indx isLoc st = Inl f \<Longrightarrow> f = ArrayOutOfBounds"
  by (auto simp: addUpvalue_def Let_def split: option.splits if_splits)

lemma getUpvalue_fault: "getUpvalue c es name st = Inl f \<Longrightarrow> f = ArrayOutOfBounds"
proof (induction c es name st rule: getUpvalue.induct)
  case (1 ccstate name st)
  then show ?case by simp
next
  case (2 ccstate e es name st)
  show ?case
  proof (cases "getLocal e name \<noteq> -1")
    case True
    then show ?thesis using "2.prems"
      by (auto simp: Let_def split: sum.splits dest: addUpvalue_fault)
  next
    case False
    then show ?thesis using "2.prems" "2.IH"
      by (auto simp: Let_def split: sum.splits if_splits dest: addUpvalue_fault)
  qed
qed

lemma resolveVariable_fault: "resolveVariable name t = Inl f \<Longrightarrow> f = ArrayOutOfBounds"
  by (auto simp: resolveVariable_def Let_def split_def split: if_splits sum.splits
      dest: getUpvalue_fault)

lemma frame_getUpvalue:
  assumes "getUpvalue (compiler t) (enclosing t) name (state t) = Inr (u, c, es, st)"
    and "frame s t"
  shows "frame s (t\<lparr>compiler := c, enclosing := es, state := st\<rparr>)"
proof -
  note g = getUpvalue_frame [OF assms(1)]
  from assms(2) have "heapExt (cfunction (compiler s)) (state s) (state t)"
    by (simp add: frame_def)
  then have h: "heapExt (cfunction (compiler s)) (state s) st"
    by (rule heapExt_same_chunks) (simp_all add: g)
  show ?thesis
    by (rule frame_stateI [OF assms(2) _ _ _ _ _ _ _ _]) (simp_all add: g h)
qed

lemma frame_resolveVariable:
  "resolveVariable name t = Inr y \<Longrightarrow> frame s t \<Longrightarrow> frame s (snd y)"
  by (cases y)
     (auto simp: resolveVariable_def Let_def split_def split: if_splits sum.splits
        intro!: frame_identifierConstant frame_getUpvalue)

lemmas frame_intros = frame_errorAt frame_errorAtCurrent frame_error frame_advance frame_consume
  frame_valuePushed frame_valuePopped frame_updFunction frame_updChunk frame_makeConstant
  frame_writeu8 frame_writeu16 frame_writeLine frame_writeConstant frame_writeJmp frame_writePop
  frame_writeJmpBack frame_patchJmp frame_identifierConstant frame_addLocal frame_markInitialized
  frame_alignStack frame_declareLocal frame_parseVariable frame_defineVariable frame_popLocals
  frame_beginScope frame_endScope frame_startLoop frame_endLoop frame_breakStatement
  frame_continueStatement frame_synchronize frame_number frame_string_p frame_literal
  frame_binaryOp frame_etterOP frame_writeIncArg frame_walkIndexes_end frame_padNil
  frame_writeUpvalues frame_compiler_fields frame_loop frame_localCount

lemma unary_post: assumes "ok_rec rec" "frame s t" shows "post s (unary rec t)"
  unfolding unary_def
  by (intro post_intros post_rec [OF assms(1)] frame_intros assms(2); assumption)

lemma binary_post: assumes "ok_rec rec" "frame s t" shows "post s (binary rec t)"
  unfolding binary_def
  by (intro post_intros post_rec [OF assms(1)] frame_intros assms(2); assumption)

lemma group_post: assumes "ok_rec rec" "frame s t" shows "post s (group rec t)"
  unfolding group_def
  by (intro post_intros post_rec [OF assms(1)] frame_intros assms(2); assumption)

lemma namedVariable_post:
  assumes "ok_rec rec" "frame s t" shows "post s (namedVariable rec name ca ci t)"
  unfolding namedVariable_def
  by (intro post_intros post_rec [OF assms(1)] frame_intros assms(2))
     (auto intro: frame_resolveVariable [OF _ assms(2)] dest: resolveVariable_fault)

lemma and_p_post: assumes "ok_rec rec" "frame s t" shows "post s (and_p rec t)"
  unfolding and_p_def
  by (intro post_intros post_rec [OF assms(1)] frame_intros assms(2); assumption)

lemma or_p_post: assumes "ok_rec rec" "frame s t" shows "post s (or_p rec t)"
  unfolding or_p_def
  by (intro post_intros post_rec [OF assms(1)] frame_intros assms(2); assumption)

lemma variable_post: assumes "ok_rec rec" "frame s t" shows "post s (variable rec ca t)"
  unfolding variable_def by (rule namedVariable_post [OF assms])

lemma concatLoop_post: assumes "ok_rec rec" "frame s t" shows "post s (concatLoop rec ty vars t)"
  unfolding concatLoop_def
  by (intro post_intros post_rec [OF assms(1)] frame_intros assms(2); assumption)

lemma concat_p_post: assumes "ok_rec rec" "frame s t" shows "post s (concat_p rec t)"
  unfolding concat_p_def
  by (intro post_intros post_rec [OF assms(1)] frame_intros assms(2); assumption)

lemma parseArgumentsLoop_post:
  assumes "ok_rec rec" "frame s t" shows "post s (parseArgumentsLoop rec n t)"
  unfolding parseArgumentsLoop_def
  by (intro post_intros post_rec [OF assms(1)] frame_intros assms(2); assumption)

lemma parseArguments_post: assumes "ok_rec rec" "frame s t" shows "post s (parseArguments rec t)"
  unfolding parseArguments_def
  by (intro post_intros post_rec [OF assms(1)] frame_intros assms(2); assumption)

lemma call_p_post: assumes "ok_rec rec" "frame s t" shows "post s (call_p rec t)"
  unfolding call_p_def
  by (intro post_intros post_rec [OF assms(1)] parseArguments_post [OF assms(1)]
        frame_intros assms(2); assumption)

lemma objectLoop_post: assumes "ok_rec rec" "frame s t" shows "post s (objectLoop rec n t)"
  unfolding objectLoop_def
  by (intro post_intros post_rec [OF assms(1)] frame_intros assms(2); assumption)

lemma object_post: assumes "ok_rec rec" "frame s t" shows "post s (object rec t)"
  unfolding object_def
  by (intro post_intros post_rec [OF assms(1)] frame_intros assms(2); assumption)

lemma dot_post: assumes "ok_rec rec" "frame s t" shows "post s (dot rec ca t)"
  unfolding dot_def
  by (intro post_intros post_rec [OF assms(1)] parseArguments_post [OF assms(1)]
        frame_intros assms(2); assumption)

lemma index_p_post: assumes "ok_rec rec" "frame s t" shows "post s (index_p rec ca t)"
  unfolding index_p_def
  by (intro post_intros post_rec [OF assms(1)] frame_intros assms(2); assumption)

lemma walkIndexes_iter_post:
  assumes "ok_rec rec" "frame s t" shows "post s (walkIndexes_iter rec a b c d e t)"
  unfolding walkIndexes_iter_def
  by (intro post_intros post_rec [OF assms(1)] frame_intros assms(2); assumption)

lemma walkIndexesLoop_post:
  assumes "ok_rec rec" "frame s t" shows "post s (walkIndexesLoop rec a b c d e t)"
  unfolding walkIndexesLoop_def
  by (intro post_intros post_rec [OF assms(1)] walkIndexes_iter_post [OF assms(1)]
        frame_intros assms(2); assumption)

lemma walkIndexes_post:
  assumes "ok_rec rec" "frame s t" shows "post s (walkIndexes rec a b c t)"
  unfolding walkIndexes_def
  by (intro post_intros post_rec [OF assms(1)] frame_intros assms(2); assumption)

lemma increment_post: assumes "ok_rec rec" "frame s t" shows "post s (increment rec v t)"
  unfolding increment_def
  by (intro post_intros post_rec [OF assms(1)] namedVariable_post [OF assms(1)]
        walkIndexes_post [OF assms(1)] frame_intros assms(2))
     (auto intro: frame_resolveVariable [OF _ assms(2)] dest: resolveVariable_fault)

lemma preincrement_post: assumes "ok_rec rec" "frame s t" shows "post s (preincrement rec t)"
  unfolding preincrement_def
  by (intro increment_post [OF assms(1)] frame_intros assms(2))

lemma predecrement_post: assumes "ok_rec rec" "frame s t" shows "post s (predecrement rec t)"
  unfolding predecrement_def
  by (intro increment_post [OF assms(1)] frame_intros assms(2))

lemma anonFunction_post: assumes "ok_rec rec" "frame s t" shows "post s (anonFunction rec t)"
  unfolding anonFunction_def by (rule post_rec [OF assms])

lemma callParseFunc_post:
  assumes "ok_rec rec" "frame s t" shows "post s (callParseFunc rec f ca t)"
  unfolding callParseFunc_def
  by (cases f)
     (simp_all add: group_post call_p_post object_post index_p_post dot_post concat_p_post
        unary_post binary_post predecrement_post preincrement_post variable_post and_p_post
        or_p_post anonFunction_post assms frame_string_p frame_number frame_literal)

lemma infixLoop_post: assumes "ok_rec rec" "frame s t" shows "post s (infixLoop rec p ca t)"
  unfolding infixLoop_def
  by (intro post_intros post_rec [OF assms(1)] callParseFunc_post [OF assms(1)]
        frame_intros assms(2); simp?)

lemma parsePrecedence_post:
  assumes "ok_rec rec" "frame s t" shows "post s (parsePrecedence rec p t)"
  unfolding parsePrecedence_def
  by (intro post_intros post_rec [OF assms(1)] callParseFunc_post [OF assms(1)]
        frame_intros assms(2); simp?)

lemma expression_post:
  assumes "ok_rec rec" "frame s t" shows "post s (expression rec n f t)"
  unfolding expression_def
  by (intro post_intros post_rec [OF assms(1)] frame_intros assms(2); simp?)


lemma blockLoop_post: assumes "ok_rec rec" "frame s t" shows "post s (blockLoop rec t)"
  unfolding blockLoop_def
  by (intro post_intros post_rec [OF assms(1)] frame_intros assms(2); assumption)

lemma block_post: assumes "ok_rec rec" "frame s t" shows "post s (block rec t)"
  unfolding block_def
  by (intro post_intros post_rec [OF assms(1)] frame_intros assms(2); assumption)

lemma varDeclValues_post: assumes "ok_rec rec" "frame s t" shows "post s (varDeclValues rec n t)"
  unfolding varDeclValues_def
  by (intro post_intros post_rec [OF assms(1)] expression_post [OF assms(1)]
        frame_intros assms(2); assumption)

lemma varDeclaration_post:
  assumes "ok_rec rec" "frame s t" shows "post s (varDeclaration rec f n t)"
  unfolding varDeclaration_def
  by (intro post_intros post_rec [OF assms(1)] frame_intros assms(2); assumption)

lemma ifBodyLoop_post: assumes "ok_rec rec" "frame s t" shows "post s (ifBodyLoop rec t)"
  unfolding ifBodyLoop_def
  by (intro post_intros post_rec [OF assms(1)] frame_intros assms(2); assumption)

lemma ifStatement_post: assumes "ok_rec rec" "frame s t" shows "post s (ifStatement rec t)"
  unfolding ifStatement_def
  by (intro post_intros post_rec [OF assms(1)] expression_post [OF assms(1)]
        block_post [OF assms(1)] frame_intros assms(2); assumption)

lemma whileStatement_post: assumes "ok_rec rec" "frame s t" shows "post s (whileStatement rec t)"
  unfolding whileStatement_def
  by (intro post_intros post_rec [OF assms(1)] expression_post [OF assms(1)]
        block_post [OF assms(1)] frame_intros assms(2); assumption)

lemma functionParams_post: assumes "ok_rec rec" "frame s t" shows "post s (functionParams rec t)"
  unfolding functionParams_def
  by (intro post_intros post_rec [OF assms(1)] frame_intros assms(2); assumption)

lemma returnLoop_post: assumes "ok_rec rec" "frame s t" shows "post s (returnLoop rec n t)"
  unfolding returnLoop_def
  by (intro post_intros post_rec [OF assms(1)] expression_post [OF assms(1)]
        frame_intros assms(2); assumption)

lemma returnStatement_post: assumes "ok_rec rec" "frame s t" shows "post s (returnStatement rec t)"
  unfolding returnStatement_def
  by (intro post_intros post_rec [OF assms(1)] frame_intros assms(2); assumption)

lemma forEachVars_post: assumes "ok_rec rec" "frame s t" shows "post s (forEachVars rec n t)"
  unfolding forEachVars_def
  by (intro post_intros post_rec [OF assms(1)] frame_intros assms(2); assumption)

lemma forEachLoop_post: assumes "ok_rec rec" "frame s t" shows "post s (forEachLoop rec t)"
  unfolding forEachLoop_def
  by (intro post_intros post_rec [OF assms(1)] expression_post [OF assms(1)]
        block_post [OF assms(1)] frame_intros assms(2); (assumption | simp))

lemma forLoop_post: assumes "ok_rec rec" "frame s t" shows "post s (forLoop rec t)"
  unfolding forLoop_def
  by (intro post_intros post_rec [OF assms(1)] expression_post [OF assms(1)]
        block_post [OF assms(1)] forEachLoop_post [OF assms(1)] frame_intros assms(2);
      (assumption | simp))


lemma terminated_written:
  "terminated (objects (state (writeu8 (U8 1) (writeu8 (OP OP_RETURN) (writeu8 (OP OP_NIL) s))))
     (cfunction (compiler s)))"
  by (simp add: terminated_def writeu8_def updChunk_def updFunction_def writeu8Chunk_def)

lemma heapExt_function:
  assumes h: "heapExt (nobjects st)
                (st\<lparr>objects := (objects st)(nobjects st := f), nobjects := Suc (nobjects st)\<rparr>) st1"
    and t: "terminated (objects st1 (nobjects st))"
  shows "heapExt c st st1"
proof (unfold heapExt_def, intro impI)
  assume "c < nobjects st"
  from h have 1: "Suc (nobjects st) \<le> nobjects st1"
    "\<And>a. a < nobjects st \<Longrightarrow> chunk (objects st1 a) = chunk (objects st a)"
    "\<And>a. Suc (nobjects st) \<le> a \<Longrightarrow> a < nobjects st1 \<Longrightarrow> terminated (objects st1 a)"
    by (auto simp: heapExt_def)
  show "nobjects st \<le> nobjects st1 \<and>
        (\<forall>a. a < nobjects st \<and> a \<noteq> c \<longrightarrow> chunk (objects st1 a) = chunk (objects st a)) \<and>
        (\<forall>a. nobjects st \<le> a \<and> a < nobjects st1 \<longrightarrow> terminated (objects st1 a))"
  proof (intro conjI allI impI)
    show "nobjects st \<le> nobjects st1" using 1(1) by simp
  next
    fix a assume "a < nobjects st \<and> a \<noteq> c"
    then show "chunk (objects st1 a) = chunk (objects st a)" using 1(2) by simp
  next
    fix a assume a: "nobjects st \<le> a \<and> a < nobjects st1"
    show "terminated (objects st1 a)"
    proof (cases "a = nobjects st")
      case True
      then show ?thesis using t by simp
    next
      case False
      with a show ?thesis using 1(3) by simp
    qed
  qed
qed

lemma endCompiler_frame:
  assumes "frame s t" "frame (initCompilerState ty (compiler t # enclosing t) t) x"
  shows "frame s (snd (endCompiler x))"
proof -
  let ?s0 = "initCompilerState ty (compiler t # enclosing t) t"
  let ?x1 = "popLocals (scopeDepth (compiler x)) x"
  let ?x2 = "writeu8 (U8 1) (writeu8 (OP OP_RETURN) (writeu8 (OP OP_NIL) ?x1))"
  have f1: "frame ?s0 ?x1"
    by (intro frame_intros assms(2))
  have f2: "frame ?s0 ?x2"
    by (intro frame_intros assms(2))
  have s0: "stack (state ?s0) = stack (state t)" "freezeGC (state ?s0) = freezeGC (state t)"
    "map cfunction (enclosing ?s0) = cfunction (compiler t) # map cfunction (enclosing t)"
    "pmodule ?s0 = pmodule t" "hadError ?s0 = hadError t" "diagnostics ?s0 = diagnostics t"
    "panic ?s0 = panic t" "cfunction (compiler ?s0) = nobjects (state t)"
    by (simp_all add: initCompilerState_def Let_def)
  note F = f2 [unfolded frame_def s0]
  from F obtain e es where e: "enclosing ?x2 = e # es" "cfunction e = cfunction (compiler t)"
    "map cfunction es = map cfunction (enclosing t)"
    by (cases "enclosing ?x2") auto
  let ?y = "?x2\<lparr>compiler := e, enclosing := es\<rparr>"
  have x2: "snd (endCompiler x) = ?y"
    using e(1) by (simp add: endCompiler_def Let_def)
  from f1 s0 have "cfunction (compiler ?x1) = nobjects (state t)"
    by (simp add: frame_def)
  with terminated_written [of ?x1]
  have t: "terminated (objects (state ?x2) (nobjects (state t)))" by simp
  from F have "heapExt (nobjects (state t)) (state ?s0) (state ?x2)"
    by blast
  then have h: "heapExt (cfunction (compiler t)) (state t) (state ?x2)"
    by (intro heapExt_function [OF _ t]) (simp add: initCompilerState_def Let_def)
  have y: "state ?y = state ?x2" "compiler ?y = e" "enclosing ?y = es" "pmodule ?y = pmodule ?x2"
    "hadError ?y = hadError ?x2" "diagnostics ?y = diagnostics ?x2" "panic ?y = panic ?x2"
    by simp_all
  have "frame t ?y"
    unfolding frame_def y using F e(2,3) h by blast
  with assms(1) show ?thesis unfolding x2 by (rule frame_trans)
qed

lemma function_p_post: assumes "ok_rec rec" "frame s t" shows "post s (function_p rec ty t)"
  unfolding function_p_def Let_def split_def
  apply (rule post_rebase [where ?s0.0 = "initCompilerState ty (compiler t # enclosing t) t"])
   apply (intro post_intros post_rec [OF assms(1)] frame_intros frame_refl)
  apply (rule post_rebase [where ?s0.0 = "initCompilerState ty (compiler t # enclosing t) t"])
   apply (intro post_intros block_post [OF assms(1)] frame_intros; assumption)
  apply (intro post_intros frame_intros endCompiler_frame [OF assms(2)]; assumption)
  done

lemma functionDeclaration_post:
  assumes "ok_rec rec" "frame s t" shows "post s (functionDeclaration rec t)"
  unfolding functionDeclaration_def
  by (intro post_intros function_p_post [OF assms(1)] frame_intros assms(2); assumption)

lemma localFunction_post: assumes "ok_rec rec" "frame s t" shows "post s (localFunction rec t)"
  unfolding localFunction_def
  by (intro post_intros function_p_post [OF assms(1)] frame_intros assms(2); assumption)

lemma protoLoop_post: assumes "ok_rec rec" "frame s t" shows "post s (protoLoop rec n t)"
  unfolding protoLoop_def
  by (intro post_intros post_rec [OF assms(1)] function_p_post [OF assms(1)]
        frame_intros assms(2); assumption)

lemma proto_p_post: assumes "ok_rec rec" "frame s t" shows "post s (proto_p rec t)"
  unfolding proto_p_def
  by (intro post_intros post_rec [OF assms(1)] frame_intros assms(2); assumption)

lemma expressionStatement_post:
  assumes "ok_rec rec" "frame s t" shows "post s (expressionStatement rec t)"
  unfolding expressionStatement_def statementBody_def
  by (intro post_intros varDeclaration_post [OF assms(1)] localFunction_post [OF assms(1)]
        ifStatement_post [OF assms(1)] block_post [OF assms(1)] whileStatement_post [OF assms(1)]
        forLoop_post [OF assms(1)] functionDeclaration_post [OF assms(1)]
        proto_p_post [OF assms(1)] returnStatement_post [OF assms(1)]
        expression_post [OF assms(1)] frame_intros assms(2); assumption)

lemma declaration_p_post: assumes "ok_rec rec" "frame s t" shows "post s (declaration_p rec t)"
  unfolding declaration_p_def statement_def
  by (intro post_intros expressionStatement_post [OF assms(1)] frame_intros assms(2); assumption)

lemma compileLoop_post: assumes "ok_rec rec" "frame s t" shows "post s (compileLoop rec t)"
  unfolding compileLoop_def
  by (intro post_intros post_rec [OF assms(1)] frame_intros assms(2); assumption)

lemma step_post: assumes "ok_rec rec" shows "post s (step rec c s)"
  unfolding step_def
  by (cases c)
     (simp_all add: parsePrecedence_post infixLoop_post expression_post parseArgumentsLoop_post
        concatLoop_post objectLoop_post walkIndexesLoop_post function_p_post functionParams_post
        blockLoop_post ifBodyLoop_post ifStatement_post varDeclaration_post varDeclValues_post
        protoLoop_post returnLoop_post forEachVars_post expressionStatement_post
        declaration_p_post compileLoop_post assms del: post_simps)

lemma ok_rec_run: "ok_rec (run n)"
proof (induction n)
  case 0
  show ?case by (simp add: ok_rec_def)
next
  case (Suc n)
  then show ?case by (simp add: ok_rec_def step_post)
qed


section \<open>Every parse function is entered with the GC frozen\<close>

lemma same_refl_iff [simp]: "same s m m = post s m"
  by (simp add: same_def)























































lemma initCompilerState_freezeGC [simp]:
  "freezeGC (state (initCompilerState ty es t)) = freezeGC (state t)"
  by (simp add: initCompilerState_def Let_def)












section \<open>Statements leave the stack counter as they found it\<close>

lemmas ex_defs = tk_def num_def st0_def startState_def compiledCode_def compiledConstants_def
  reported_def

lemma getChunk_set_compiler:
  "cfunction c = cfunction (compiler s) \<Longrightarrow> getChunk (s\<lparr>compiler := c\<rparr>) = getChunk s"
  by (simp add: getChunk_def getFunction_def)

lemma buf_writeu8 [simp]: "buf (getChunk (writeu8 i s)) = buf (getChunk s) @ [i]"
  by (simp add: writeu8_def writeu8Chunk_def)

lemma writeu8_fields [simp]:
  "hadError (writeu8 i s) = hadError s" "panic (writeu8 i s) = panic s"
  "diagnostics (writeu8 i s) = diagnostics s" "previous (writeu8 i s) = previous s"
  "current (writeu8 i s) = current s" "lex (writeu8 i s) = lex s"
  by (simp_all add: writeu8_def)

lemma getChunk_errorAt [simp]: "getChunk (errorAt token msg s) = getChunk s"
  by (simp add: errorAt_def getChunk_def getFunction_def)

lemma alignStack_pushedValues [simp]: "pushedValues (compiler (alignStack a s)) = a"
  by (simp add: alignStack_def Let_def)

lemma alignStack_excess:
  assumes "pushedValues (compiler s) > a"
  shows "buf (getChunk (alignStack a s)) =
           buf (getChunk s) @ [OP OP_POP, U8 (word_of_int (pushedValues (compiler s) - a))]"
    and "hadError (alignStack a s) = hadError s"
    and "diagnostics (alignStack a s) = diagnostics s"
  using assms by (simp_all add: alignStack_def Let_def writePop_def getChunk_set_compiler)

lemma alignStack_deficit:
  assumes "pushedValues (compiler s) < a"
  shows "getChunk (alignStack a s) = getChunk s"
    and "hadError (alignStack a s)"
    and "\<not> hadError s \<Longrightarrow>
         \<exists>loc. diagnostics (alignStack a s) =
                 diagnostics s @ [(tok_line (previous s), loc, ''Missing expression!'')]"
  using assms
  by (simp_all add: alignStack_def Let_def error_def errorAt_def getChunk_def getFunction_def)

lemma alignStack_equal: "pushedValues (compiler s) = a \<Longrightarrow> alignStack a s = s"
  by (simp add: alignStack_def Let_def)

text \<open>
  C2.  A statement is compiled by \<open>expressionStatement\<close>: it saves the counter
  \<open>pushedValues\<close>, compiles the statement (\<open>statementBody\<close>, which leaves a state \<open>s1\<close>) and
  aligns the stack.  Whenever it returns, the counter is what it was before the statement,
  and it is the counter of the same compiler state (the current function and the depth of
  the chain of enclosing compiler states are unchanged).  It is restored in one of three
  ways.  If the statement left the counter above the saved value, the excess is popped: the
  code is that of \<open>s1\<close> followed by \<^verbatim>\<open>OP_POP\<close> and the excess, and nothing is reported.  If
  it left the counter below, nothing is emitted and a compile error is raised: \<open>hadError\<close>
  is set, and unless an error was reported before, the diagnostic \<^verbatim>\<open>Missing expression!\<close> is
  added at the line of the previous token.  If it left the counter as it was, the state is
  that of \<open>s1\<close>.
\<close>

theorem statement_stack_neutral:
  assumes "expressionStatement (run n) s = Ok r s'"
  shows "\<exists>r1 s1. statementBody (run n) s = Ok r1 s1 \<and>
     pushedValues (compiler s') = pushedValues (compiler s) \<and>
     cfunction (compiler s') = cfunction (compiler s) \<and>
     length (enclosing s') = length (enclosing s) \<and>
     (pushedValues (compiler s1) > pushedValues (compiler s) \<longrightarrow>
        buf (getChunk s') =
          buf (getChunk s1) @
            [OP OP_POP, U8 (word_of_int (pushedValues (compiler s1) - pushedValues (compiler s)))] \<and>
        hadError s' = hadError s1 \<and> diagnostics s' = diagnostics s1) \<and>
     (pushedValues (compiler s1) < pushedValues (compiler s) \<longrightarrow>
        buf (getChunk s') = buf (getChunk s1) \<and> hadError s' \<and>
        (\<not> hadError s1 \<longrightarrow>
           (\<exists>loc. diagnostics s' =
                   diagnostics s1 @ [(tok_line (previous s1), loc, ''Missing expression!'')]))) \<and>
     (pushedValues (compiler s1) = pushedValues (compiler s) \<longrightarrow> s' = s1)"
proof -
  from assms obtain r1 s1 where b: "statementBody (run n) s = Ok r1 s1"
    and s': "s' = alignStack (pushedValues (compiler s)) s1"
    by (auto simp: expressionStatement_def Let_def andThen_Ok_iff)
  have "frame s s'"
    using expressionStatement_post [OF ok_rec_run [of n] frame_refl [of s]] assms by simp
  then have f: "cfunction (compiler s') = cfunction (compiler s)"
    "length (enclosing s') = length (enclosing s)"
    unfolding frame_def by (auto dest: map_eq_imp_length_eq)
  have c: "pushedValues (compiler s') = pushedValues (compiler s)"
    by (simp add: s')
  show ?thesis
  proof (rule exI [of _ r1], rule exI [of _ s1], intro conjI impI)
    show "statementBody (run n) s = Ok r1 s1" by (rule b)
    show "pushedValues (compiler s') = pushedValues (compiler s)" by (rule c)
    show "cfunction (compiler s') = cfunction (compiler s)"
      "length (enclosing s') = length (enclosing s)" by (rule f)+
  next
    assume "pushedValues (compiler s) < pushedValues (compiler s1)"
    from alignStack_excess [OF this]
    show "buf (getChunk s') =
          buf (getChunk s1) @
            [OP OP_POP, U8 (word_of_int (pushedValues (compiler s1) - pushedValues (compiler s)))]"
      "hadError s' = hadError s1" "diagnostics s' = diagnostics s1"
      by (simp_all add: s')
  next
    assume "pushedValues (compiler s1) < pushedValues (compiler s)"
    from alignStack_deficit(1,2) [OF this]
    show "buf (getChunk s') = buf (getChunk s1)" "hadError s'"
      by (simp_all add: s')
  next
    assume "pushedValues (compiler s1) < pushedValues (compiler s)" "\<not> hadError s1"
    from alignStack_deficit(3) [OF this]
    show "\<exists>loc. diagnostics s' =
                 diagnostics s1 @ [(tok_line (previous s1), loc, ''Missing expression!'')]"
      by (simp add: s')
  next
    assume "pushedValues (compiler s1) = pushedValues (compiler s)"
    then show "s' = s1" by (simp add: s' alignStack_equal)
  qed
qed

text \<open>
  The three ways on three statements, each from the start of a compilation, where the
  counter is 0.  \<^verbatim>\<open>var ;\<close> lacks a name: after that error \<open>defineVariable\<close> does nothing, the
  nil of the declaration stays counted, and it is popped.  \<^verbatim>\<open>f()()\<close> leaves the counter at
  -1 without an error, and \<^verbatim>\<open>Missing expression!\<close> is reported.  \<^verbatim>\<open>x++\<close> leaves the counter
  at 0, its value having been popped by \<open>expression\<close>.
\<close>

theorem statement_stack_neutral_witness:
  "(\<exists>r s'. expressionStatement (run 20) (startState src_one_error) = Ok r s' \<and>
      pushedValues (compiler s') = 0 \<and> buf (getChunk s') = [OP OP_NIL, OP OP_POP, U8 1]) \<and>
   (\<exists>r s'. expressionStatement (run 20) (startState src_callcall) = Ok r s' \<and>
      pushedValues (compiler s') = 0 \<and> hadError s' \<and>
      diagnostics s' = [(1, '' at '' @ [CHR 0x27] @ '')'' @ [CHR 0x27], ''Missing expression!'')]) \<and>
   (\<exists>r s'. expressionStatement (run 20) (startState src_postfix) = Ok r s' \<and>
      pushedValues (compiler s') = 0 \<and> \<not> hadError s' \<and>
      buf (getChunk s') = [OP OP_INCGLOBAL, U8 129, U8 0, U8 0, OP OP_POP, U8 1])"
proof -
  have p0: "pushedValues (compiler (startState src)) = 0" for src
    by (simp add: startState_def initParseState_def initCompilerState_def Let_def)
  have 1: "\<exists>r s'. expressionStatement (run 20) (startState src_one_error) = Ok r s' \<and>
      buf (getChunk s') = [OP OP_NIL, OP OP_POP, U8 1]"
    by (simp add: run_defs ex_defs src_one_error_def)
  have 2: "\<exists>r s'. expressionStatement (run 20) (startState src_callcall) = Ok r s' \<and>
      hadError s' \<and>
      diagnostics s' = [(1, '' at '' @ [CHR 0x27] @ '')'' @ [CHR 0x27], ''Missing expression!'')]"
    by (simp add: run_defs ex_defs src_callcall_def)
  have 3: "\<exists>r s'. expressionStatement (run 20) (startState src_postfix) = Ok r s' \<and>
      \<not> hadError s' \<and>
      buf (getChunk s') = [OP OP_INCGLOBAL, U8 129, U8 0, U8 0, OP OP_POP, U8 1]"
    by (simp add: run_defs ex_defs src_postfix_def)
  from 1 obtain r1 s1 where
    a: "expressionStatement (run 20) (startState src_one_error) = Ok r1 s1"
       "buf (getChunk s1) = [OP OP_NIL, OP OP_POP, U8 1]" by blast
  from 2 obtain r2 s2 where
    b: "expressionStatement (run 20) (startState src_callcall) = Ok r2 s2" "hadError s2"
       "diagnostics s2 = [(1, '' at '' @ [CHR 0x27] @ '')'' @ [CHR 0x27], ''Missing expression!'')]"
    by blast
  from 3 obtain r3 s3 where
    c: "expressionStatement (run 20) (startState src_postfix) = Ok r3 s3" "\<not> hadError s3"
       "buf (getChunk s3) = [OP OP_INCGLOBAL, U8 129, U8 0, U8 0, OP OP_POP, U8 1]" by blast
  from statement_stack_neutral [OF a(1)] have "pushedValues (compiler s1) = 0"
    by (auto simp: p0)
  moreover from statement_stack_neutral [OF b(1)] have "pushedValues (compiler s2) = 0"
    by (auto simp: p0)
  moreover from statement_stack_neutral [OF c(1)] have "pushedValues (compiler s3) = 0"
    by (auto simp: p0)
  ultimately show ?thesis using a b c by blast
qed
section \<open>The GC stays frozen while compiling\<close>







section \<open>One diagnostic per compilation\<close>











section \<open>Sources on which the compiler does not return\<close>

text \<open>The loop of \<open>proto_p\<close> does not end on a token it has no case for.\<close>

lemma protoLoop_diverges:
  "\<not> check TOKEN_END s \<Longrightarrow> \<not> check TOKEN_EOF s \<Longrightarrow> \<not> hadError s \<Longrightarrow>
   \<not> check TOKEN_FUNCTION s \<Longrightarrow> run n (ProtoLoop k) s = OutOfFuel"
  by (induction n arbitrary: k) (simp_all add: step_def protoLoop_def)

lemma compile_proto_diverges:
  "cosmoP_compileString n st0 src_proto ''main'' = CompileOutOfFuel"
proof -
  consider "n = 0" | "n = Suc 0" | m where "n = Suc (Suc m)"
    by (metis not0_implies_Suc)
  then show ?thesis
  proof cases
    case 1
    then show ?thesis
      by (simp add: cosmoP_compileString_def compileString_parse_def compileString_with_def)
  next
    case 2
    then show ?thesis
      by (simp add: model_defs ex_defs src_proto_def Let_def split_def)
  next
    case 3
    then show ?thesis
      by (simp add: model_defs ex_defs src_proto_def Let_def split_def protoLoop_diverges)
  qed
qed

text \<open>
  C1.  \<open>cosmoP_compileString\<close> does not return on every source.  On \<^verbatim>\<open>1++\<close> the loop of
  \<open>parsePrecedence\<close> calls the infix function of \<^verbatim>\<open>++\<close>, which is a null pointer.  On
  \<^verbatim>\<open>proto A x\<close> the loop of \<open>proto_p\<close> never ends: the run is out of fuel for every bound.
  In neither case is a value pushed.
\<close>

theorem compileString_not_total:
  "cosmoP_compileString 20 st0 src_number_increment ''main'' = CompileFault NullFunctionCall \<and>
   (\<forall>n. cosmoP_compileString n st0 src_proto ''main'' = CompileOutOfFuel)"
proof
  show "cosmoP_compileString 20 st0 src_number_increment ''main'' = CompileFault NullFunctionCall"
    by (simp add: run_defs ex_defs src_number_increment_def)
  show "\<forall>n. cosmoP_compileString n st0 src_proto ''main'' = CompileOutOfFuel"
    by (simp add: compile_proto_diverges)
qed

end
